theory Spec2Isabelle
  imports Main "HOL-Library.Sublist"
begin

section \<open>Python values, exceptions and results\<close>

text \<open>
  The interpreter (\<^verbatim>\<open>interpreter.py\<close>) and the parser (\<^verbatim>\<open>mf_parser.py\<close>) are
  translated function by function. Mutation of \<^verbatim>\<open>self\<close> is explicit state passing,
  a raised exception is the value \<open>Raises\<close>, and a loop that does not return is the
  value \<open>Diverges\<close>.
\<close>

datatype exn =
  AssertionError | IndexError | KeyError | TypeError | ValueError
  | RuntimeError | NotImplementedError

datatype 'a result = Returns 'a | Raises exn | Diverges

fun and_then :: "'a result \<Rightarrow> ('a \<Rightarrow> 'b result) \<Rightarrow> 'b result" where
  "and_then (Returns x) f = f x"
| "and_then (Raises e) f = Raises e"
| "and_then Diverges f = Diverges"

text \<open>
  Modelled from the spec: the enumeration \<^verbatim>\<open>OpType\<close> of \<^verbatim>\<open>backends/type_defs.py\<close>,
  which is not among the sources; its members are the kinds of section 3 of the
  specification, in that order (so that \<^verbatim>\<open>END_OF_STATEMENT\<close> has ordinal 11, as the
  interpreter asserts).
\<close>

datatype op_type =
  PUSH_VALUE | CREATE_VAR | GET_VAR | GET_OUTPUT | SET_OUTPUT | SET_FUNCTION_OUT
  | SPLIT_STRUCT | CALL_FUNCTION | CALL_NODEGROUP | CALL_BUILTIN | RENAME_NODE
  | END_OF_STATEMENT | PACK_LIST

text \<open>
  Modelled from the spec: the enumeration \<^verbatim>\<open>DataType\<close> of \<^verbatim>\<open>backends/type_defs.py\<close>;
  its members are those named in \<^verbatim>\<open>data_type_to_socket_type\<close> and in the parser.
\<close>

datatype data_type =
  DT_BOOL | DT_INT | DT_FLOAT | DT_RGBA | DT_VEC3 | DT_GEOMETRY | DT_STRING | DT_SHADER
  | DT_OBJECT | DT_IMAGE | DT_COLLECTION | DT_TEXTURE | DT_MATERIAL | DT_ROTATION
  | DT_UNKNOWN | DT_DEFAULT

text \<open>
  A port of the host graph: the node that owns it, the side it is on and its position
  on that side.
\<close>

datatype direction = INPUT | OUTPUT

datatype socket = SocketOf nat direction nat

text \<open>
  The Python objects that reach the interpreter: constants, port handles, lists,
  the two syntax-tree nodes it inspects (\<^verbatim>\<open>ast_defs.Name\<close>, \<^verbatim>\<open>ast_defs.ListLiteral\<close>) and
  the three descriptors. Modelled from the spec: the descriptor classes
  \<^verbatim>\<open>CompiledFunction\<close> (inputs, num_outputs, body), \<^verbatim>\<open>CompiledNodeGroup\<close> (name, inputs,
  outputs, body; an input or output is a name, a type and an optional default) and
  \<^verbatim>\<open>NodeInstance\<close> (key, props, inputs, outputs) and the class \<^verbatim>\<open>Operation\<close>
  (op_type, data) of \<^verbatim>\<open>backends/type_defs.py\<close>. A float is kept as its text.
\<close>

datatype pyval =
    PyNone
  | PyBool bool
  | PyInt int
  | PyFloat string
  | PyStr string
  | PyTuple "pyval list"
  | PyList "pyval list"
  | NodeSocket socket
  | Name string
  | ListLiteral "pyval list"
  | CompiledFunction "string list" int "oper list"
  | CompiledNodeGroup string "(string \<times> data_type \<times> pyval) list"
      "(string \<times> data_type \<times> pyval) list" "oper list"
  | NodeInstance string "(string \<times> pyval) list" "int list" "int list"
  | PyObject string
and oper = Operation op_type pyval

text \<open>\<^verbatim>\<open>isinstance(v, int)\<close>: in Python a \<^verbatim>\<open>bool\<close> is an \<^verbatim>\<open>int\<close>.\<close>

fun as_int :: "pyval \<Rightarrow> int option" where
  "as_int (PyInt i) = Some i"
| "as_int (PyBool b) = Some (if b then 1 else 0)"
| "as_int _ = None"

text \<open>\<^verbatim>\<open>xs[i]\<close> and \<^verbatim>\<open>xs[i] = v\<close> on a Python list: a negative index counts from the end.\<close>

definition py_position :: "nat \<Rightarrow> int \<Rightarrow> nat option" where
  \<comment> \<open>the position an index denotes in a sequence of the given length\<close>
  "py_position len i =
     (if 0 \<le> i \<and> i < int len then Some (nat i)
      else if - int len \<le> i \<and> i < 0 then Some (nat (int len + i))
      else None)"

definition py_index :: "'a list \<Rightarrow> int \<Rightarrow> 'a result" where
  "py_index xs i =
     (case py_position (length xs) i of
        None \<Rightarrow> Raises IndexError
      | Some j \<Rightarrow> Returns (xs ! j))"

definition py_setitem :: "'a list \<Rightarrow> int \<Rightarrow> 'a \<Rightarrow> 'a list result" where
  "py_setitem xs i v =
     (case py_position (length xs) i of
        None \<Rightarrow> Raises IndexError
      | Some j \<Rightarrow> Returns (xs[j := v]))"

text \<open>\<^verbatim>\<open>xs.pop()\<close>: the last element and the rest.\<close>

definition py_pop :: "'a list \<Rightarrow> ('a \<times> 'a list) result" where
  "py_pop xs = (if xs = [] then Raises IndexError else Returns (last xs, butlast xs))"

section \<open>The host graph backend\<close>

text \<open>
  Modelled from the spec: the Graph Backend (\<^verbatim>\<open>bpy\<close>) is an external collaborator, so
  its capability surface of section 6 is modelled as a recording backend. It keeps the
  graphs and nodes it was asked to create, hands out their positions as handles, and
  logs every mutation. The ports of a node of a built-in type come from a catalogue
  \<open>bk_types\<close> of the host (an unknown type cannot be created); a gateway node or a
  reference node takes its ports from the declared ports of its graph.
\<close>

record socket_decl =
  sd_name :: string
  sd_type :: string
  sd_multi :: bool

record tree_info =
  t_name :: string
  t_idname :: string
  t_inputs :: "socket_decl list"
  t_outputs :: "socket_decl list"

record node_info =
  n_tree :: nat
  n_type :: string
  n_inputs :: "socket_decl list"
  n_outputs :: "socket_decl list"

datatype event =
    NewTree string string
  | NewInterfaceSocket nat string direction string
  | SetInterfaceDefault nat direction nat pyval
  | NewNode nat string
  | SetAttr nat string pyval
  | SetNodeTree nat nat
  | NewLink nat socket socket
  | SetDefault socket pyval
  | SetLabel nat pyval

record backend =
  bk_types :: "string \<Rightarrow> (socket_decl list \<times> socket_decl list) option"
  bk_trees :: "tree_info list"
  bk_nodes :: "node_info list"
  bk_log :: "event list"

definition tree_idname :: "backend \<Rightarrow> nat \<Rightarrow> string" where
  "tree_idname b t = (if t < length (bk_trees b) then t_idname (bk_trees b ! t) else [])"

definition tree_ports :: "backend \<Rightarrow> nat \<Rightarrow> direction \<Rightarrow> socket_decl list" where
  "tree_ports b t d =
     (if t < length (bk_trees b)
      then (case d of INPUT \<Rightarrow> t_inputs (bk_trees b ! t) | OUTPUT \<Rightarrow> t_outputs (bk_trees b ! t))
      else [])"

definition node_ports :: "backend \<Rightarrow> nat \<Rightarrow> direction \<Rightarrow> socket_decl list" where
  "node_ports b n d =
     (if n < length (bk_nodes b)
      then (case d of INPUT \<Rightarrow> n_inputs (bk_nodes b ! n) | OUTPUT \<Rightarrow> n_outputs (bk_nodes b ! n))
      else [])"

definition node_bl_idname :: "backend \<Rightarrow> nat \<Rightarrow> string" where
  "node_bl_idname b n = (if n < length (bk_nodes b) then n_type (bk_nodes b ! n) else [])"

text \<open>\<^verbatim>\<open>bpy.data.node_groups.new(name, idname)\<close>\<close>

definition node_groups_new :: "string \<Rightarrow> string \<Rightarrow> backend \<Rightarrow> nat \<times> backend" where
  "node_groups_new name idname b =
     (length (bk_trees b),
      b\<lparr>bk_trees := bk_trees b @
           [\<lparr>t_name = name, t_idname = idname, t_inputs = [], t_outputs = []\<rparr>],
        bk_log := bk_log b @ [NewTree name idname]\<rparr>)"

text \<open>\<^verbatim>\<open>node_tree.interface.new_socket(name, in_out=..., socket_type=...)\<close>: the position of
  the declared port on its side.\<close>

definition interface_new_socket ::
  "nat \<Rightarrow> string \<Rightarrow> direction \<Rightarrow> string \<Rightarrow> backend \<Rightarrow> nat \<times> backend" where
  "interface_new_socket t name d socket_type b =
     (let decl = \<lparr>sd_name = name, sd_type = socket_type, sd_multi = False\<rparr>;
          add = (\<lambda>ti. case d of
                   INPUT \<Rightarrow> ti\<lparr>t_inputs := t_inputs ti @ [decl]\<rparr>
                 | OUTPUT \<Rightarrow> ti\<lparr>t_outputs := t_outputs ti @ [decl]\<rparr>)
      in (length (tree_ports b t d),
          b\<lparr>bk_trees := (if t < length (bk_trees b)
                          then (bk_trees b)[t := add (bk_trees b ! t)] else bk_trees b),
            bk_log := bk_log b @ [NewInterfaceSocket t name d socket_type]\<rparr>))"

definition interface_set_default :: "nat \<Rightarrow> direction \<Rightarrow> nat \<Rightarrow> pyval \<Rightarrow> backend \<Rightarrow> backend" where
  "interface_set_default t d i v b = b\<lparr>bk_log := bk_log b @ [SetInterfaceDefault t d i v]\<rparr>"

text \<open>\<^verbatim>\<open>tree.nodes.new(type)\<close>\<close>

definition nodes_new :: "nat \<Rightarrow> string \<Rightarrow> backend \<Rightarrow> (nat \<times> backend) result" where
  "nodes_new t type b =
     (let ports =
            (if type = ''NodeGroupInput'' then Some ([], tree_ports b t INPUT)
             else if type = ''NodeGroupOutput'' then Some (tree_ports b t OUTPUT, [])
             else if type = ''GeometryNodeGroup'' \<or> type = ''ShaderNodeGroup'' then Some ([], [])
             else bk_types b type)
      in case ports of
           None \<Rightarrow> Raises RuntimeError
         | Some (ins, outs) \<Rightarrow>
             Returns (length (bk_nodes b),
               b\<lparr>bk_nodes := bk_nodes b @
                    [\<lparr>n_tree = t, n_type = type, n_inputs = ins, n_outputs = outs\<rparr>],
                 bk_log := bk_log b @ [NewNode t type]\<rparr>))"

text \<open>\<^verbatim>\<open>setattr(node, name, value)\<close>, \<^verbatim>\<open>node.label = value\<close>\<close>

definition node_setattr :: "nat \<Rightarrow> string \<Rightarrow> pyval \<Rightarrow> backend \<Rightarrow> backend" where
  "node_setattr n name v b = b\<lparr>bk_log := bk_log b @ [SetAttr n name v]\<rparr>"

definition node_set_label :: "nat \<Rightarrow> pyval \<Rightarrow> backend \<Rightarrow> backend" where
  "node_set_label n v b = b\<lparr>bk_log := bk_log b @ [SetLabel n v]\<rparr>"

text \<open>\<^verbatim>\<open>node.node_tree = node_tree\<close>: the reference node shows the ports of the graph.\<close>

definition node_set_tree :: "nat \<Rightarrow> nat \<Rightarrow> backend \<Rightarrow> backend" where
  "node_set_tree n t b =
     b\<lparr>bk_nodes := (if n < length (bk_nodes b)
                     then (bk_nodes b)[n := (bk_nodes b ! n)
                            \<lparr>n_inputs := tree_ports b t INPUT, n_outputs := tree_ports b t OUTPUT\<rparr>]
                     else bk_nodes b),
       bk_log := bk_log b @ [SetNodeTree n t]\<rparr>"

text \<open>\<^verbatim>\<open>node.inputs[i]\<close>, \<^verbatim>\<open>node.outputs[i]\<close> with an integer, and with a name.\<close>

definition node_socket :: "backend \<Rightarrow> nat \<Rightarrow> direction \<Rightarrow> int \<Rightarrow> socket result" where
  "node_socket b n d i =
     (case py_position (length (node_ports b n d)) i of
        None \<Rightarrow> Raises IndexError
      | Some j \<Rightarrow> Returns (SocketOf n d j))"

fun find_name :: "string \<Rightarrow> socket_decl list \<Rightarrow> nat \<Rightarrow> nat option" where
  "find_name name [] i = None"
| "find_name name (p # ps) i = (if sd_name p = name then Some i else find_name name ps (Suc i))"

definition node_socket_named :: "backend \<Rightarrow> nat \<Rightarrow> direction \<Rightarrow> string \<Rightarrow> socket result" where
  "node_socket_named b n d name =
     (case find_name name (node_ports b n d) 0 of
        None \<Rightarrow> Raises KeyError
      | Some j \<Rightarrow> Returns (SocketOf n d j))"

definition socket_decl_of :: "backend \<Rightarrow> socket \<Rightarrow> socket_decl option" where
  "socket_decl_of b k =
     (case k of SocketOf n d j \<Rightarrow>
        if j < length (node_ports b n d) then Some (node_ports b n d ! j) else None)"

text \<open>\<^verbatim>\<open>tree.links.new(a, b)\<close>, \<^verbatim>\<open>socket.default_value = v\<close>\<close>

definition links_new :: "nat \<Rightarrow> socket \<Rightarrow> socket \<Rightarrow> backend \<Rightarrow> backend" where
  "links_new t a c b = b\<lparr>bk_log := bk_log b @ [NewLink t a c]\<rparr>"

definition set_default_value :: "socket \<Rightarrow> pyval \<Rightarrow> backend \<Rightarrow> backend" where
  "set_default_value k v b = b\<lparr>bk_log := bk_log b @ [SetDefault k v]\<rparr>"

section \<open>The interpreter\<close>

text \<open>
  The fields of \<^verbatim>\<open>Interpreter\<close>. \<open>tree\<close> and the members of \<open>nodes\<close> are handles of the
  backend \<open>bpy\<close>; an unset output slot (\<^verbatim>\<open>None\<close>) is \<open>PyNone\<close>. The port-identity table
  is keyed by the port itself, which stands for its canonical text \<^verbatim>\<open>str(socket)\<close>.
\<close>

record interp =
  tree :: nat
  stack :: "pyval list"
  nodes :: "nat list"
  node_group_trees :: "string \<rightharpoonup> nat"
  variables :: "string \<rightharpoonup> pyval"
  function_outputs :: "pyval list"
  socket_table :: "socket \<rightharpoonup> socket"
  bpy :: backend

text \<open>
  The loop of \<^verbatim>\<open>CREATE_VAR\<close>:
  \<^verbatim>\<open>while isinstance(socket, ast_defs.Name): socket = self.variables.get(socket.id, socket)\<close>.
  It has no bound, so it is a partial function: \<open>None\<close> is the loop that never ends.
\<close>

partial_function (option) chase_name :: "(string \<rightharpoonup> pyval) \<Rightarrow> pyval \<Rightarrow> pyval option" where
  "chase_name vars socket =
     (case socket of
        Name var_id \<Rightarrow> chase_name vars (case vars var_id of None \<Rightarrow> socket | Some v \<Rightarrow> v)
      | _ \<Rightarrow> Some socket)"

declare chase_name.simps [code]

definition get_args :: "pyval list \<Rightarrow> nat \<Rightarrow> pyval list \<times> pyval list" where
  \<comment> \<open>the arguments, and the stack that is left\<close>
  "get_args stk num_args =
     (if num_args = 0 then ([], stk)
      else (drop (length stk - num_args) stk, take (length stk - num_args) stk))"

fun get_output_socket :: "(socket \<rightharpoonup> socket) \<Rightarrow> pyval \<Rightarrow> pyval" where
  "get_output_socket table (PyList vs) = PyList (map (get_output_socket table) vs)"
| "get_output_socket table (NodeSocket k) =
     (case table k of Some k' \<Rightarrow> NodeSocket k' | None \<Rightarrow> NodeSocket k)"
| "get_output_socket table v = v"

fun data_type_to_socket_type :: "data_type \<Rightarrow> string result" where
  "data_type_to_socket_type DT_BOOL = Returns ''NodeSocketBool''"
| "data_type_to_socket_type DT_INT = Returns ''NodeSocketInt''"
| "data_type_to_socket_type DT_FLOAT = Returns ''NodeSocketFloat''"
| "data_type_to_socket_type DT_RGBA = Returns ''NodeSocketColor''"
| "data_type_to_socket_type DT_VEC3 = Returns ''NodeSocketVector''"
| "data_type_to_socket_type DT_GEOMETRY = Returns ''NodeSocketGeometry''"
| "data_type_to_socket_type DT_STRING = Returns ''NodeSocketString''"
| "data_type_to_socket_type DT_SHADER = Returns ''NodeSocketShader''"
| "data_type_to_socket_type DT_OBJECT = Returns ''NodeSocketObject''"
| "data_type_to_socket_type DT_IMAGE = Returns ''NodeSocketImage''"
| "data_type_to_socket_type DT_COLLECTION = Returns ''NodeSocketCollection''"
| "data_type_to_socket_type DT_TEXTURE = Returns ''NodeSocketTexture''"
| "data_type_to_socket_type DT_MATERIAL = Returns ''NodeSocketMaterial''"
| "data_type_to_socket_type DT_ROTATION = Returns ''NodeSocketRotation''"
| "data_type_to_socket_type _ = Raises AssertionError"

subsection \<open>\<^verbatim>\<open>add_builtin\<close>\<close>

text \<open>
  The two loops over the elements of a list argument: each element that is a name is
  looked up once in the variables, passed through \<^verbatim>\<open>get_output_socket\<close>, and linked to
  the target port when the outcome is a port. (The \<^verbatim>\<open>print\<close> calls of the source are
  left out.)
\<close>

definition resolve_geo_input :: "interp \<Rightarrow> pyval \<Rightarrow> pyval" where
  "resolve_geo_input s geo_input =
     get_output_socket (socket_table s)
       (case geo_input of
          Name i \<Rightarrow> (case variables s i of None \<Rightarrow> geo_input | Some v \<Rightarrow> v)
        | _ \<Rightarrow> geo_input)"

fun link_geo_inputs ::
  "pyval list \<Rightarrow> (backend \<Rightarrow> socket result) \<Rightarrow> interp \<Rightarrow> interp result" where
  "link_geo_inputs [] target s = Returns s"
| "link_geo_inputs (geo_input # rest) target s =
     (case resolve_geo_input s geo_input of
        NodeSocket k \<Rightarrow>
          and_then (target (bpy s))
            (\<lambda>t. link_geo_inputs rest target (s\<lparr>bpy := links_new (tree s) k t (bpy s)\<rparr>))
      | _ \<Rightarrow> link_geo_inputs rest target s)"

definition is_geometry_socket :: "backend \<Rightarrow> socket \<Rightarrow> bool" where
  "is_geometry_socket b k =
     (case socket_decl_of b k of None \<Rightarrow> False | Some p \<Rightarrow> sd_type p = ''NodeSocketGeometry'')"

definition is_multi_input :: "backend \<Rightarrow> socket \<Rightarrow> bool" where
  "is_multi_input b k = (case socket_decl_of b k of None \<Rightarrow> False | Some p \<Rightarrow> sd_multi p)"

text \<open>\<^verbatim>\<open>if isinstance(v, bpy.types.NodeSocket): self.tree.links.new(v, target)\<close>\<close>

definition link_if_socket :: "pyval \<Rightarrow> socket \<Rightarrow> interp \<Rightarrow> interp" where
  "link_if_socket v target s =
     (case v of
        NodeSocket a \<Rightarrow> s\<lparr>bpy := links_new (tree s) a target (bpy s)\<rparr>
      | _ \<Rightarrow> s)"

text \<open>The body of the loop \<^verbatim>\<open>for i, input_index in enumerate(node_info.inputs)\<close>.\<close>

definition connect_input :: "nat \<Rightarrow> int \<Rightarrow> pyval \<Rightarrow> interp \<Rightarrow> interp result" where
  "connect_input node input_index arg s =
     (case arg of
        NodeSocket a \<Rightarrow>
          and_then (node_socket (bpy s) node INPUT input_index)
            (\<lambda>t. Returns (s\<lparr>bpy := links_new (tree s) a t (bpy s)\<rparr>))
      | PyList elems \<Rightarrow>
          if node_bl_idname (bpy s) node = ''GeometryNodeJoinGeometry''
          then link_geo_inputs (rev elems)
                 (\<lambda>b. node_socket_named b node INPUT ''Geometry'') s
          else and_then (node_socket (bpy s) node INPUT input_index)
            (\<lambda>input_socket.
               if is_geometry_socket (bpy s) input_socket
               then if is_multi_input (bpy s) input_socket
                 then link_geo_inputs elems (\<lambda>b. Returns input_socket) s
                 else and_then (py_index elems 0)
                   (\<lambda>first. Returns (link_if_socket first input_socket s))
               else Returns s)
      | _ \<Rightarrow>
          and_then (node_socket (bpy s) node INPUT input_index)
            (\<lambda>input_socket.
               if arg \<noteq> PyNone
               then Returns (s\<lparr>bpy := set_default_value input_socket arg (bpy s)\<rparr>)
               else Returns s))"

fun connect_inputs :: "nat \<Rightarrow> pyval list \<Rightarrow> int list \<Rightarrow> nat \<Rightarrow> interp \<Rightarrow> interp result" where
  "connect_inputs node args [] i s = Returns s"
| "connect_inputs node args (input_index # rest) i s =
     and_then (py_index args (int i))
       (\<lambda>arg. and_then (connect_input node input_index arg s)
          (\<lambda>s1. connect_inputs node args rest (Suc i) s1))"

definition add_builtin ::
  "string \<Rightarrow> (string \<times> pyval) list \<Rightarrow> int list \<Rightarrow> pyval list \<Rightarrow> interp
     \<Rightarrow> (nat \<times> interp) result" where
  "add_builtin key props inputs args s =
     and_then (nodes_new (tree s) key (bpy s))
       (\<lambda>(node, b).
          and_then
            (connect_inputs node args inputs 0
               (s\<lparr>bpy := fold (\<lambda>(name, v). node_setattr node name v) props b\<rparr>))
            (\<lambda>s1. Returns (node, s1)))"

text \<open>\<^verbatim>\<open>[node.outputs[o] for o in outs]\<close>\<close>

fun output_sockets :: "backend \<Rightarrow> nat \<Rightarrow> int list \<Rightarrow> pyval list result" where
  "output_sockets b node [] = Returns []"
| "output_sockets b node (o1 # os) =
     and_then (node_socket b node OUTPUT o1)
       (\<lambda>k. and_then (output_sockets b node os) (\<lambda>ks. Returns (NodeSocket k # ks)))"

subsection \<open>The parts of \<^verbatim>\<open>execute_node_group\<close> around the body\<close>

text \<open>The two loops that declare the typed ports of the inner graph.\<close>

fun declare_ports ::
  "nat \<Rightarrow> direction \<Rightarrow> (string \<times> data_type \<times> pyval) list \<Rightarrow> backend \<Rightarrow> backend result" where
  "declare_ports t d [] b = Returns b"
| "declare_ports t d ((name, dtype, v) # rest) b =
     and_then (data_type_to_socket_type dtype)
       (\<lambda>socket_type.
          case interface_new_socket t name d socket_type b of
            (i, b1) \<Rightarrow>
              declare_ports t d rest
                (if v \<noteq> PyNone then interface_set_default t d i v b1 else b1))"

text \<open>
  The inner graph, its declared ports and its two gateway nodes: the graph, the input
  gateway, the output gateway and the backend after creating them.
\<close>

definition create_inner_tree ::
  "string \<Rightarrow> (string \<times> data_type \<times> pyval) list \<Rightarrow> (string \<times> data_type \<times> pyval) list
     \<Rightarrow> interp \<Rightarrow> (nat \<times> nat \<times> nat \<times> backend) result" where
  "create_inner_tree name inputs outputs s =
     (case node_groups_new name (tree_idname (bpy s) (tree s)) (bpy s) of
        (node_tree, b0) \<Rightarrow>
          and_then (declare_ports node_tree INPUT inputs b0)
            (\<lambda>b1. and_then (declare_ports node_tree OUTPUT outputs b1)
               (\<lambda>b2. and_then (nodes_new node_tree ''NodeGroupInput'' b2)
                  (\<lambda>(group_input, b3). and_then (nodes_new node_tree ''NodeGroupOutput'' b3)
                     (\<lambda>(group_output, b4).
                        Returns (node_tree, group_input, group_output, b4))))))"

text \<open>\<^verbatim>\<open>for socket in group_input.outputs: self.variables[socket.name] = socket\<close>\<close>

definition gateway_variables :: "backend \<Rightarrow> nat \<Rightarrow> (string \<rightharpoonup> pyval)" where
  "gateway_variables b group_input =
     fold (\<lambda>(j, p) m. m(sd_name p \<mapsto> NodeSocket (SocketOf group_input OUTPUT j)))
       (enumerate 0 (node_ports b group_input OUTPUT)) Map.empty"

text \<open>The loop that connects the output slots to the output gateway.\<close>

fun connect_group_outputs ::
  "nat \<Rightarrow> nat \<Rightarrow> pyval list \<Rightarrow> nat \<Rightarrow> backend \<Rightarrow> backend result" where
  "connect_group_outputs node_tree group_output [] index b = Returns b"
| "connect_group_outputs node_tree group_output (foutput # rest) index b =
     (case foutput of
        NodeSocket k \<Rightarrow>
          and_then (node_socket b group_output INPUT (int index))
            (\<lambda>t. connect_group_outputs node_tree group_output rest (Suc index)
                    (links_new node_tree k t b))
      | PyNone \<Rightarrow> connect_group_outputs node_tree group_output rest (Suc index) b
      | _ \<Rightarrow>
          and_then (node_socket b group_output INPUT (int index))
            (\<lambda>t. connect_group_outputs node_tree group_output rest (Suc index)
                    (set_default_value t foutput b)))"

text \<open>The loop that connects the arguments to the reference node.\<close>

fun connect_args :: "nat \<Rightarrow> nat \<Rightarrow> pyval list \<Rightarrow> nat \<Rightarrow> backend \<Rightarrow> backend result" where
  "connect_args t node [] i b = Returns b"
| "connect_args t node (arg # rest) i b =
     (case arg of
        NodeSocket a \<Rightarrow>
          and_then (node_socket b node INPUT (int i))
            (\<lambda>k. connect_args t node rest (Suc i) (links_new t a k b))
      | PyNone \<Rightarrow> connect_args t node rest (Suc i) b
      | _ \<Rightarrow>
          and_then (node_socket b node INPUT (int i))
            (\<lambda>k. connect_args t node rest (Suc i) (set_default_value k arg b)))"

text \<open>
  The end of \<^verbatim>\<open>execute_node_group\<close>, run on the first and on every later invocation:
  a reference node for the inner graph, its arguments, and its output or outputs on
  the stack.
\<close>

definition instantiate_group :: "nat \<Rightarrow> pyval list \<Rightarrow> interp \<Rightarrow> interp result" where
  "instantiate_group node_tree args s =
     (let group_name = (if tree_idname (bpy s) (tree s) = ''GeometryNodeTree''
                        then ''GeometryNodeGroup'' else ''ShaderNodeGroup'')
      in and_then (nodes_new (tree s) group_name (bpy s))
           (\<lambda>(node, b).
              and_then (connect_args (tree s) node args 0 (node_set_tree node node_tree b))
                (\<lambda>b1.
                   let s1 = s\<lparr>bpy := b1, nodes := nodes s @ [node]\<rparr>;
                       n = length (node_ports b1 node OUTPUT)
                   in if n = 1
                      then Returns (s1\<lparr>stack := stack s1 @ [NodeSocket (SocketOf node OUTPUT 0)]\<rparr>)
                      else if n > 1
                      then Returns (s1\<lparr>stack := stack s1 @
                             [PyList (map (\<lambda>i. NodeSocket (SocketOf node OUTPUT i)) (rev [0..<n]))]\<rparr>)
                      else Returns s1)))"

subsection \<open>\<^verbatim>\<open>Interpreter.operation\<close> and \<^verbatim>\<open>Interpreter.execute_node_group\<close>\<close>

fun isinstance_NodeSocket :: "pyval \<Rightarrow> bool" where
  "isinstance_NodeSocket (NodeSocket k) = True"
| "isinstance_NodeSocket v = False"

fun isinstance_list :: "pyval \<Rightarrow> bool" where
  "isinstance_list (PyList vs) = True"
| "isinstance_list v = False"

text \<open>\<^verbatim>\<open>[self.stack.pop() for _ in range(count)]\<close>: the popped values in the order they
  were popped, and the stack that is left.\<close>

fun pop_many :: "nat \<Rightarrow> pyval list \<Rightarrow> (pyval list \<times> pyval list) result" where
  "pop_many 0 stk = Returns ([], stk)"
| "pop_many (Suc n) stk =
     and_then (py_pop stk)
       (\<lambda>(v, stk1). and_then (pop_many n stk1) (\<lambda>(vs, stk2). Returns (v # vs, stk2)))"

text \<open>
  The branches of \<^verbatim>\<open>operation\<close> that do not execute other operations, in the order of
  the source.
\<close>

definition operation_simple :: "op_type \<Rightarrow> pyval \<Rightarrow> interp \<Rightarrow> interp result" where
  "operation_simple op_type op_data s =
     (case op_type of
        PUSH_VALUE \<Rightarrow> Returns (s\<lparr>stack := stack s @ [op_data]\<rparr>)
      | CREATE_VAR \<Rightarrow>
          (case op_data of
             PyStr var \<Rightarrow>
               and_then (py_pop (stack s))
                 (\<lambda>(popped, stk).
                    case chase_name (variables s) popped of
                      None \<Rightarrow> Diverges
                    | Some socket \<Rightarrow>
                        if isinstance_NodeSocket socket \<or> isinstance_list socket
                           \<or> as_int socket \<noteq> None
                        then Returns (s\<lparr>stack := stk,
                                        variables := (variables s)(var \<mapsto> socket)\<rparr>)
                        else Raises AssertionError)
           | _ \<Rightarrow> Raises AssertionError)
      | GET_VAR \<Rightarrow>
          (case op_data of
             PyStr var \<Rightarrow>
               (case variables s var of
                  None \<Rightarrow> Raises KeyError
                | Some v \<Rightarrow> Returns (s\<lparr>stack := stack s @ [v]\<rparr>))
           | _ \<Rightarrow> Raises AssertionError)
      | GET_OUTPUT \<Rightarrow>
          (case as_int op_data of
             None \<Rightarrow> Raises AssertionError
           | Some index \<Rightarrow>
               and_then (py_pop (stack s))
                 (\<lambda>(struct, stk).
                    case struct of
                      PyList elems \<Rightarrow>
                        and_then (py_index elems (- index - 1))
                          (\<lambda>v. Returns (s\<lparr>stack := stk @ [v]\<rparr>))
                    | _ \<Rightarrow> Raises AssertionError))
      | SET_OUTPUT \<Rightarrow>
          (case op_data of
             PyTuple items \<Rightarrow>
               (case items of
                  [index, v] \<Rightarrow>
                    and_then (py_index (nodes s) (- 1))
                      (\<lambda>node.
                         and_then
                           (case index of
                              PyStr name \<Rightarrow> node_socket_named (bpy s) node OUTPUT name
                            | _ \<Rightarrow>
                              (case as_int index of
                                 None \<Rightarrow> Raises TypeError
                               | Some i \<Rightarrow> node_socket (bpy s) node OUTPUT i))
                           (\<lambda>k. Returns (s\<lparr>bpy := set_default_value k v (bpy s)\<rparr>)))
                | _ \<Rightarrow> Raises ValueError)
           | _ \<Rightarrow> Raises AssertionError)
      | SET_FUNCTION_OUT \<Rightarrow>
          (case as_int op_data of
             None \<Rightarrow> Raises AssertionError
           | Some index \<Rightarrow>
               and_then (py_pop (stack s))
                 (\<lambda>(socket, stk).
                    if isinstance_NodeSocket socket
                    then and_then (py_setitem (function_outputs s) index socket)
                           (\<lambda>outs. Returns (s\<lparr>stack := stk, function_outputs := outs\<rparr>))
                    else Raises AssertionError))
      | SPLIT_STRUCT \<Rightarrow>
          and_then (py_pop (stack s))
            (\<lambda>(struct, stk).
               case struct of
                 PyList elems \<Rightarrow> Returns (s\<lparr>stack := stk @ elems\<rparr>)
               | _ \<Rightarrow> Raises AssertionError)
      | CALL_BUILTIN \<Rightarrow>
          (case op_data of
             NodeInstance key props inputs outputs \<Rightarrow>
               (case get_args (stack s) (length inputs) of
                  (args, stk) \<Rightarrow>
                    and_then (add_builtin key props inputs args (s\<lparr>stack := stk\<rparr>))
                      (\<lambda>(node, s1).
                         if length outputs = 1
                         then and_then (node_socket (bpy s1) node OUTPUT (hd outputs))
                                (\<lambda>socket.
                                   Returns (s1\<lparr>socket_table := (socket_table s1)(socket \<mapsto> socket),
                                              stack := stack s1 @ [NodeSocket socket],
                                              nodes := nodes s1 @ [node]\<rparr>))
                         else if length outputs > 1
                         then and_then (output_sockets (bpy s1) node (rev outputs))
                                (\<lambda>ks. Returns (s1\<lparr>stack := stack s1 @ [PyList ks],
                                                  nodes := nodes s1 @ [node]\<rparr>))
                         else Returns (s1\<lparr>nodes := nodes s1 @ [node]\<rparr>)))
           | _ \<Rightarrow> Raises AssertionError)
      | RENAME_NODE \<Rightarrow>
          and_then (py_index (nodes s) (- 1))
            (\<lambda>node. Returns (s\<lparr>bpy := node_set_label node op_data (bpy s)\<rparr>))
      | END_OF_STATEMENT \<Rightarrow> Returns (s\<lparr>stack := []\<rparr>)
      | PACK_LIST \<Rightarrow>
          (case as_int op_data of
             None \<Rightarrow> Raises AssertionError
           | Some count \<Rightarrow>
               and_then (pop_many (nat count) (stack s))
                 (\<lambda>(elements, stk). Returns (s\<lparr>stack := stk @ [PyList (rev elements)]\<rparr>)))
      | _ \<Rightarrow> Raises NotImplementedError)"

text \<open>
  The end of the \<^verbatim>\<open>CALL_FUNCTION\<close> branch: \<open>s\<close> is the interpreter before the call,
  \<open>outer_stack\<close> its stack without the arguments, \<open>s1\<close> the interpreter after the body.
\<close>

definition function_return :: "interp \<Rightarrow> pyval list \<Rightarrow> interp \<Rightarrow> interp result" where
  "function_return s outer_stack s1 =
     (let outs = function_outputs s1;
          restore = (\<lambda>stk. s1\<lparr>stack := stk, function_outputs := function_outputs s,
                                variables := variables s\<rparr>)
      in if length outs = 1
         then (if isinstance_NodeSocket (hd outs)
               then Returns (restore (outer_stack @ [hd outs]))
               else Raises AssertionError)
         else if length outs > 1
         then (if list_all isinstance_NodeSocket outs
               then Returns (restore (outer_stack @ [PyList (rev outs)]))
               else Raises AssertionError)
         else Returns (restore outer_stack))"

text \<open>
  The recursion follows the data: a descriptor carries its body, so \<open>operation\<close> on a
  call recurses into a part of its own operand. \<open>operation_kind\<close> is the chain of
  branches on \<^verbatim>\<open>op_type\<close> that follows the test for a list literal, \<open>run_body\<close> the loop
  \<^verbatim>\<open>for operation in body: self.operation(operation)\<close>, and \<open>eval_elements\<close> the loop over
  the elements of a list literal, with the list evaluated so far.
  \<open>execute_node_group\<close> takes the fields of its descriptor.
\<close>

function (sequential) operation :: "oper \<Rightarrow> interp \<Rightarrow> interp result"
and operation_kind :: "op_type \<Rightarrow> pyval \<Rightarrow> interp \<Rightarrow> interp result"
and run_body :: "oper list \<Rightarrow> interp \<Rightarrow> interp result"
and eval_elements ::
  "pyval list \<Rightarrow> pyval list \<Rightarrow> interp \<Rightarrow> (pyval list \<times> interp) result"
and execute_node_group ::
  "string \<Rightarrow> (string \<times> data_type \<times> pyval) list \<Rightarrow> (string \<times> data_type \<times> pyval) list
     \<Rightarrow> oper list \<Rightarrow> pyval list \<Rightarrow> interp \<Rightarrow> interp result"
where
  "operation (Operation op_type op_data) s =
     (case op_data of
        ListLiteral elements \<Rightarrow>
          and_then (eval_elements elements [] s)
            (\<lambda>(evaluated_elements, s1).
               Returns (s1\<lparr>stack := stack s1 @ [PyList evaluated_elements]\<rparr>))
      | _ \<Rightarrow> operation_kind op_type op_data s)"
| "operation_kind op_type op_data s =
     (case op_type of
        CALL_FUNCTION \<Rightarrow>
          (case op_data of
             CompiledFunction inputs num_outputs body \<Rightarrow>
               (case get_args (stack s) (length inputs) of
                  (args, outer_stack) \<Rightarrow>
                    and_then
                      (run_body body
                         (s\<lparr>variables := fold (\<lambda>(name, arg) m. m(name \<mapsto> arg))
                                           (zip inputs args) Map.empty,
                            function_outputs := replicate (nat num_outputs) PyNone,
                            stack := []\<rparr>))
                      (function_return s outer_stack))
           | _ \<Rightarrow> Raises AssertionError)
      | CALL_NODEGROUP \<Rightarrow>
          (case op_data of
             CompiledNodeGroup name inputs outputs body \<Rightarrow>
               (case get_args (stack s) (length inputs) of
                  (args, stk) \<Rightarrow>
                    execute_node_group name inputs outputs body args (s\<lparr>stack := stk\<rparr>))
           | _ \<Rightarrow> Raises AssertionError)
      | _ \<Rightarrow> operation_simple op_type op_data s)"
| "run_body [] s = Returns s"
| "run_body (op # rest) s = and_then (operation op s) (run_body rest)"
| "eval_elements [] evaluated_elements s = Returns (evaluated_elements, s)"
| "eval_elements (e # rest) evaluated_elements s =
     and_then (operation (Operation PUSH_VALUE e) s)
       (\<lambda>s1. and_then (py_pop (stack s1))
          (\<lambda>(v, stk). eval_elements rest (evaluated_elements @ [v]) (s1\<lparr>stack := stk\<rparr>)))"
| "execute_node_group name inputs outputs body args s =
     and_then
       (case node_group_trees s name of
          Some node_tree \<Rightarrow> Returns (node_tree, s)
        | None \<Rightarrow>
            and_then (create_inner_tree name inputs outputs s)
              (\<lambda>(node_tree, group_input, group_output, b).
                 and_then
                   (run_body body
                      (s\<lparr>bpy := b, tree := node_tree,
                         variables := gateway_variables b group_input,
                         function_outputs := replicate (length outputs) PyNone,
                         stack := []\<rparr>))
                   (\<lambda>s1.
                      and_then
                        (connect_group_outputs node_tree group_output
                           (function_outputs s1) 0 (bpy s1))
                        (\<lambda>b1.
                           Returns (node_tree,
                             s1\<lparr>bpy := b1, stack := stack s,
                                function_outputs := function_outputs s,
                                variables := variables s, tree := tree s,
                                node_group_trees := (node_group_trees s1)(name \<mapsto> node_tree)\<rparr>)))))
       (\<lambda>(node_tree, s2). instantiate_group node_tree args s2)"
  by pat_completeness auto

termination
  by (relation "measure (\<lambda>x. case x of
        Inl (Inl (op, s)) \<Rightarrow> 2 * size op
      | Inl (Inr (t, d, s)) \<Rightarrow> 2 * size d + 1
      | Inr (Inl (ops, s)) \<Rightarrow> 2 * size_list size ops + 1
      | Inr (Inr (Inl (es, acc, s))) \<Rightarrow> 2 * size_list size es + 3
      | Inr (Inr (Inr (n, ins, outs, body, args, s))) \<Rightarrow> 2 * size_list size body + 2)")
    auto

subsection \<open>A host and an interpreter to run examples on\<close>

text \<open>
  A host that knows one built-in node type, with two inputs and one output, and one
  empty geometry graph; and the interpreter as \<^verbatim>\<open>__init__\<close> leaves it on that graph.
\<close>

definition float_port :: "string \<Rightarrow> socket_decl" where
  "float_port name = \<lparr>sd_name = name, sd_type = ''NodeSocketFloat'', sd_multi = False\<rparr>"

definition host0 :: backend where
  "host0 =
     \<lparr>bk_types = (\<lambda>t. if t = ''ShaderNodeMath''
                        then Some ([float_port ''A'', float_port ''B''], [float_port ''Value''])
                        else None),
      bk_trees = [\<lparr>t_name = ''Geometry Nodes'', t_idname = ''GeometryNodeTree'',
                    t_inputs = [], t_outputs = []\<rparr>],
      bk_nodes = [],
      bk_log = []\<rparr>"

definition interp0 :: interp where
  "interp0 =
     \<lparr>tree = 0, stack = [], nodes = [], node_group_trees = Map.empty,
      variables = Map.empty, function_outputs = [], socket_table = Map.empty,
      bpy = host0\<rparr>"

text \<open>
  The value a list literal evaluates to: a nested list literal becomes a list, every
  other element is pushed as it is.
\<close>

fun list_literal_value :: "pyval \<Rightarrow> pyval" where
  "list_literal_value (ListLiteral es) = PyList (map list_literal_value es)"
| "list_literal_value v = v"

fun isinstance_ListLiteral :: "pyval \<Rightarrow> bool" where
  "isinstance_ListLiteral (ListLiteral es) = True"
| "isinstance_ListLiteral v = False"

section \<open>What a call leaves behind\<close>

text \<open>
  The host only ever adds: a call on the backend appends to the list of trees, to the list
  of nodes and to the log, and leaves the catalogue of node types alone. \<open>grows b b'\<close>
  says that \<open>b'\<close> is \<open>b\<close> after such calls.
\<close>

definition grows :: "backend \<Rightarrow> backend \<Rightarrow> bool" where
  "grows b b' \<longleftrightarrow>
     bk_types b' = bk_types b \<and> prefix (bk_trees b) (bk_trees b') \<and>
     prefix (bk_nodes b) (bk_nodes b') \<and> prefix (bk_log b) (bk_log b')"

text \<open>
  What every operation of the interpreter keeps: the tree it builds in, the number of
  output slots, the entries of \<^verbatim>\<open>node_group_trees\<close> (the dictionary only gains keys), and
  a backend that grows.
\<close>

definition frame :: "interp \<Rightarrow> interp \<Rightarrow> bool" where
  "frame s s' \<longleftrightarrow>
     tree s' = tree s \<and> length (function_outputs s') = length (function_outputs s) \<and>
     node_group_trees s \<subseteq>\<^sub>m node_group_trees s' \<and> grows (bpy s) (bpy s')"

text \<open>Only the backend changes, and it grows: the effect of \<^verbatim>\<open>add_builtin\<close>.\<close>

definition only_bpy :: "interp \<Rightarrow> interp \<Rightarrow> bool" where
  "only_bpy s s' \<longleftrightarrow> (\<exists>b'. s' = s\<lparr>bpy := b'\<rparr> \<and> grows (bpy s) b')"

text \<open>
  The state in which \<^verbatim>\<open>CALL_FUNCTION\<close> runs the body (lines 91 to 100): the variables are
  the parameters bound to the arguments, the arguments being the last \<open>length inputs\<close>
  values of the stack, there are \<^verbatim>\<open>num_outputs\<close> empty output slots, and the stack is empty.
\<close>

definition callee_frame :: "string list \<Rightarrow> int \<Rightarrow> interp \<Rightarrow> interp" where
  "callee_frame inputs num_outputs s =
     s\<lparr>variables := fold (\<lambda>(name, arg) m. m(name \<mapsto> arg))
                       (zip inputs (drop (length (stack s) - length inputs) (stack s))) Map.empty,
       function_outputs := replicate (nat num_outputs) PyNone,
       stack := []\<rparr>"

text \<open>
  What \<^verbatim>\<open>CALL_FUNCTION\<close> pushes after the body (lines 106 to 113): the one output, the
  reversed list of several, nothing for none.
\<close>

definition pushed_outputs :: "pyval list \<Rightarrow> pyval list" where
  "pushed_outputs outs =
     (if length outs = 1 then [hd outs] else if length outs > 1 then [PyList (rev outs)] else [])"

text \<open>
  What \<^verbatim>\<open>execute_node_group\<close> pushes (lines 314 to 319) for a reference node with \<open>n\<close>
  outputs, and the type of the reference node (lines 299 to 303).
\<close>

definition group_pushed :: "nat \<Rightarrow> nat \<Rightarrow> pyval list" where
  "group_pushed node n =
     (if n = 1 then [NodeSocket (SocketOf node OUTPUT 0)]
      else if n > 1 then [PyList (map (\<lambda>i. NodeSocket (SocketOf node OUTPUT i)) (rev [0..<n]))]
      else [])"

definition group_node_type :: "interp \<Rightarrow> string" where
  "group_node_type s =
     (if tree_idname (bpy s) (tree s) = ''GeometryNodeTree''
      then ''GeometryNodeGroup'' else ''ShaderNodeGroup'')"

text \<open>The log entries of wiring: a link, or a default value on a port.\<close>

fun is_wiring :: "event \<Rightarrow> bool" where
  "is_wiring (NewLink t a c) = True"
| "is_wiring (SetDefault k v) = True"
| "is_wiring e = False"

subsection \<open>Example programs\<close>

text \<open>
  A caller with a variable \<^verbatim>\<open>x\<close>, and a function whose body creates a variable of the
  same name.
\<close>

definition caller0 :: interp where
  "caller0 = interp0\<lparr>stack := [PyInt 7, PyInt 2], variables := [''x'' \<mapsto> PyInt 1]\<rparr>"

definition shadowing_function :: pyval where
  "shadowing_function =
     CompiledFunction [''a''] 0
       [Operation PUSH_VALUE (PyInt 5), Operation CREATE_VAR (PyStr ''x'')]"

text \<open>A function whose body adds a node.\<close>

definition node_making_function :: pyval where
  "node_making_function =
     CompiledFunction [] 0
       [Operation CALL_BUILTIN (NodeInstance ''ShaderNodeMath'' [] [] [])]"









section \<open>The parser\<close>

text \<open>
  \<^verbatim>\<open>mf_parser.py\<close>, function by function. \<^verbatim>\<open>Parser.add_tokens\<close>, which the parser does not
  call itself, is left out; the buffer it fills is part of the state.
\<close>

subsection \<open>Tokens and syntax trees\<close>

text \<open>
  Modelled from the spec: the enumeration \<^verbatim>\<open>TokenType\<close> and the class \<^verbatim>\<open>Token\<close> of
  \<^verbatim>\<open>scanner.py\<close>, which is not among the sources. The kinds are those of section 6 of the
  specification, in the order in which the comments of the rule table of \<^verbatim>\<open>mf_parser.py\<close>
  name them (\<^verbatim>\<open>INT\<close> is written \<open>INT_tok\<close>); a token is a lexeme, a kind, a line, a
  column, a start offset and an optional error message (section 3).
\<close>

datatype token_type =
    LEFT_PAREN | RIGHT_PAREN | LEFT_SQUARE_BRACKET | RIGHT_SQUARE_BRACKET | LEFT_BRACE
  | RIGHT_BRACE | COMMA | DOT | SEMICOLON | EQUAL | MINUS | PLUS | PERCENT | SLASH | HAT
  | GREATER | LESS | COLON | UNDERSCORE | STAR | STAR_STAR | ARROW | LESS_EQUAL
  | GREATER_EQUAL | EQUAL_EQUAL | BANG_EQUAL | IDENTIFIER | INT_tok | FLOAT | PYTHON | STRING
  | GROUP_NAME | OUT | FUNCTION | NODEGROUP | LOOP | TRUE | FALSE | NOT | OR | AND
  | ERROR | EOL

record token =
  lexeme :: string
  token_type :: token_type
  line :: nat
  col :: nat
  start :: nat
  token_error :: "string option"

text \<open>
  Modelled from the spec: the node classes of \<^verbatim>\<open>ast_defs.py\<close>, which is not among the
  sources, with the fields the parser gives them; every node carries the token it comes
  from. Statements are \<^verbatim>\<open>Assign\<close>, \<^verbatim>\<open>Out\<close>, \<^verbatim>\<open>FunctionDef\<close>, \<^verbatim>\<open>NodegroupDef\<close> and \<^verbatim>\<open>Loop\<close>,
  the other nodes are expressions (section 3). A target of an assignment is a name or
  \<^verbatim>\<open>None\<close>.
\<close>

datatype operator =
    Add token | Sub token | Div token | Mult token | Mod token | Pow_op token
  | Gt token | GtE token | Lt token | LtE token | Eq token | NotEq token
  | And token | Or token

datatype unaryop = USub token | Not_op token

datatype ast =
    Assign token "ast option list" ast
  | Out token "ast option list" ast
  | FunctionDef token string "arg list" "ast list" "arg list"
  | NodegroupDef token string "arg list" "ast list" "arg list"
  | Loop token "ast option" int int "ast list"
  | Constant token pyval data_type
  | Name_expr token string
  | Vec3 token ast ast ast
  | ListLiteral_expr token "ast list"
  | UnaryOp token unaryop ast
  | BinOp token ast operator ast
  | Call token ast "ast list" "keyword list"
  | Attribute token ast string
and arg = Arg token string data_type "ast option"
and keyword = Keyword token string ast

datatype module = Module "ast list"

text \<open>\<^verbatim>\<open>isinstance(node, ast_defs.expr)\<close>.\<close>

fun is_expr :: "ast \<Rightarrow> bool" where
  "is_expr (Assign t targets v) = False"
| "is_expr (Out t targets v) = False"
| "is_expr (FunctionDef t name args body returns) = False"
| "is_expr (NodegroupDef t name args body returns) = False"
| "is_expr (Loop t var lo hi body) = False"
| "is_expr node = True"

text \<open>The class \<^verbatim>\<open>Error\<close>: a token and a message.\<close>

datatype diagnostic = Error token string

subsection \<open>Running the parser\<close>

text \<open>
  The functions that call each other recursively, and the loops, take a number of steps
  they may still take; \<open>OutOfFuel\<close> is the answer of a run that needed more. A raised
  exception is \<open>Raised\<close>.
\<close>

datatype 'a parsed = Parsed 'a | Raised exn | OutOfFuel

fun then_parse :: "'a parsed \<Rightarrow> ('a \<Rightarrow> 'b parsed) \<Rightarrow> 'b parsed" where
  "then_parse (Parsed x) f = f x"
| "then_parse (Raised e) f = Raised e"
| "then_parse OutOfFuel f = OutOfFuel"

text \<open>
  Modelled from the spec: what \<^verbatim>\<open>python\<close> gets from the host for the text of an embedded
  expression (section 4.1). \<^verbatim>\<open>eval\<close> raises one of the four exceptions that \<^verbatim>\<open>python\<close>
  catches, with a text, or another exception; or it returns a value, for which \<^verbatim>\<open>float\<close>
  raises \<^verbatim>\<open>ValueError\<close>, with a text, or another exception, or returns a float.
\<close>

datatype python_outcome =
    EvalFails string
  | EvalRaises exn
  | FloatFails string
  | FloatRaises exn
  | FloatValue string

text \<open>
  The state of a \<^verbatim>\<open>Parser\<close>. Modelled from the spec: the scanner is the list of the tokens
  it has not delivered yet, and the two things the parser reads from outside are fields
  too: the host's answer to an embedded expression, and the dictionary
  \<^verbatim>\<open>string_to_data_type\<close> of \<^verbatim>\<open>backends/type_defs.py\<close>.
\<close>

record parser =
  scanner :: "token list"
  token_buffer :: "token list"
  current :: token
  previous :: token
  had_error :: bool
  panic_mode :: bool
  curr_node :: "ast option"
  errors :: "diagnostic list"
  host_python :: "string \<Rightarrow> python_outcome"
  string_to_data_type :: "string \<rightharpoonup> data_type"

text \<open>
  Modelled from the spec: \<^verbatim>\<open>Scanner.scan_token\<close> delivers the next token, and the
  end-of-input marker once there is none.
\<close>

definition end_of_input :: token where
  "end_of_input =
     \<lparr>lexeme = [], token_type = EOL, line = 0, col = 0, start = 0, token_error = None\<rparr>"

definition scan_token :: "token list \<Rightarrow> token \<times> token list" where
  "scan_token ts = (case ts of [] \<Rightarrow> (end_of_input, []) | t # rest \<Rightarrow> (t, rest))"

text \<open>\<^verbatim>\<open>Parser.__init__\<close>.\<close>

definition Parser ::
  "token list \<Rightarrow> (string \<Rightarrow> python_outcome) \<Rightarrow> (string \<rightharpoonup> data_type) \<Rightarrow> parser" where
  "Parser source host types =
     \<lparr>scanner = snd (scan_token source), token_buffer = [],
      current = fst (scan_token source), previous = fst (scan_token source),
      had_error = False, panic_mode = False, curr_node = None, errors = [],
      host_python = host, string_to_data_type = types\<rparr>"

subsection \<open>Diagnostics\<close>

text \<open>\<^verbatim>\<open>str\<close> of a natural number, and \<^verbatim>\<open>int\<close> of a string of decimal digits.\<close>

fun str_nat :: "nat \<Rightarrow> string" where
  "str_nat n =
     (if n < 10 then [''0123456789'' ! n]
      else str_nat (n div 10) @ [''0123456789'' ! (n mod 10)])"

declare str_nat.simps [simp del]

definition error_message :: "token \<Rightarrow> string \<Rightarrow> string" where
  "error_message token message =
     (let error = ''line:'' @ str_nat (line token) @ '':'' @ str_nat (col token) @ '': Error'';
          error = (if token_type token = EOL then error @ '' at end:''
                   else if token_type token = ERROR then error
                   else error @ '' at '' @ [CHR 0x22] @ lexeme token @ [CHR 0x22] @ '':'')
      in error @ '' '' @ message)"

definition error_at :: "token \<Rightarrow> string \<Rightarrow> parser \<Rightarrow> parser" where
  "error_at token message p =
     (if panic_mode p then p
      else p\<lparr>panic_mode := True,
             errors := errors p @ [Error token (error_message token message)],
             had_error := True\<rparr>)"

definition error_at_current :: "string \<Rightarrow> parser \<Rightarrow> parser" where
  "error_at_current message p = error_at (current p) message p"

definition error :: "string \<Rightarrow> parser \<Rightarrow> parser" where
  "error message p = error_at (previous p) message p"

subsection \<open>Moving through the tokens\<close>

text \<open>
  The loop of \<^verbatim>\<open>advance\<close>: take the next token, from the buffer if it holds one and from
  the scanner otherwise, until it is not an error token; for an error token, report its
  message.
\<close>

definition take_token :: "parser \<Rightarrow> parser" where
  "take_token p =
     (if token_buffer p \<noteq> []
      then p\<lparr>current := last (token_buffer p), token_buffer := butlast (token_buffer p)\<rparr>
      else p\<lparr>current := fst (scan_token (scanner p)), scanner := snd (scan_token (scanner p))\<rparr>)"

function skip_errors :: "parser \<Rightarrow> parser" where
  "skip_errors p =
     (let p = take_token p in
      if token_type (current p) \<noteq> ERROR then p
      else
        let token = current p;
            message = (case token_error token of None \<Rightarrow> ''None'' | Some m \<Rightarrow> m)
        in skip_errors
             (error_at \<lparr>lexeme = lexeme token, token_type = ERROR, line = line token,
                        col = col token, start = start token, token_error = None\<rparr>
                message p))"
  by pat_completeness auto

termination
  by (relation "measure (\<lambda>p. length (token_buffer p) + length (scanner p))")
    (auto simp: take_token_def error_at_def scan_token_def end_of_input_def
      split: list.splits if_splits)

declare skip_errors.simps [simp del]

definition advance :: "parser \<Rightarrow> parser" where
  "advance p = skip_errors (p\<lparr>previous := current p\<rparr>)"

definition check :: "token_type \<Rightarrow> parser \<Rightarrow> bool" where
  "check type p \<longleftrightarrow> token_type (current p) = type"

definition match :: "token_type \<Rightarrow> parser \<Rightarrow> bool \<times> parser" where
  "match type p = (if \<not> check type p then (False, p) else (True, advance p))"

definition consume :: "token_type \<Rightarrow> string \<Rightarrow> parser \<Rightarrow> parser" where
  "consume type message p = (if check type p then advance p else error_at_current message p)"

text \<open>
  \<^verbatim>\<open>synchronize\<close>. Every turn of its loop that goes on moves \<^verbatim>\<open>previous\<close> one token
  further, and the tokens end with the end-of-input marker.
\<close>

definition tokens_left :: "parser \<Rightarrow> nat" where
  "tokens_left p =
     length (token_buffer p) + length (scanner p)
       + (if token_type (current p) = EOL then 0 else 1)
       + (if token_type (previous p) = EOL then 0 else 1)"

lemma skip_errors_tokens_left:
  "previous (skip_errors p) = previous p \<and>
   length (token_buffer (skip_errors p)) + length (scanner (skip_errors p))
     + (if token_type (current (skip_errors p)) = EOL then 0 else 1)
     \<le> length (token_buffer p) + length (scanner p)"
proof (induction p rule: skip_errors.induct)
  case (1 p)
  let ?q = "take_token p"
  have taken: "previous ?q = previous p \<and>
      length (token_buffer ?q) + length (scanner ?q)
        + (if token_type (current ?q) = EOL then 0 else 1)
        \<le> length (token_buffer p) + length (scanner p)"
    by (auto simp: take_token_def scan_token_def end_of_input_def split: list.splits)
  show ?case
  proof (cases "token_type (current ?q) = ERROR")
    case False
    then show ?thesis using taken by (subst (1 2 3 4) skip_errors.simps) (simp add: Let_def)
  next
    case True
    let ?t = "current ?q"
    let ?r = "error_at \<lparr>lexeme = lexeme ?t, token_type = ERROR, line = line ?t,
                        col = col ?t, start = start ?t, token_error = None\<rparr>
                (case token_error ?t of None \<Rightarrow> ''None'' | Some m \<Rightarrow> m) ?q"
    have step: "skip_errors p = skip_errors ?r"
      using True by (subst skip_errors.simps) (simp add: Let_def)
    have r: "previous ?r = previous ?q" "token_buffer ?r = token_buffer ?q"
      "scanner ?r = scanner ?q"
      by (simp_all add: error_at_def)
    from "1.IH"[OF refl _ refl refl] True
    have "previous (skip_errors ?r) = previous ?r \<and>
      length (token_buffer (skip_errors ?r)) + length (scanner (skip_errors ?r))
        + (if token_type (current (skip_errors ?r)) = EOL then 0 else 1)
        \<le> length (token_buffer ?r) + length (scanner ?r)"
      by simp
    then show ?thesis using taken True unfolding step r by simp
  qed
qed

lemma advance_tokens_left:
  "token_type (previous p) \<noteq> EOL \<Longrightarrow> tokens_left (advance p) < tokens_left p"
  using skip_errors_tokens_left[of "p\<lparr>previous := current p\<rparr>"]
  by (simp add: tokens_left_def advance_def)

function synchronize_loop :: "parser \<Rightarrow> parser" where
  "synchronize_loop p =
     (if token_type (previous p) \<noteq> EOL
      then if token_type (previous p) = SEMICOLON then p
           else if token_type (current p) \<in> {OUT, FUNCTION, NODEGROUP} then p
           else synchronize_loop (advance p)
      else p)"
  by pat_completeness auto

termination
  by (relation "measure tokens_left") (simp_all add: advance_tokens_left)

declare synchronize_loop.simps [simp del]

definition synchronize :: "parser \<Rightarrow> parser" where
  "synchronize p = synchronize_loop (p\<lparr>panic_mode := False\<rparr>)"

subsection \<open>The rule table\<close>

text \<open>
  The values of \<^verbatim>\<open>Precedence\<close>, and the call \<^verbatim>\<open>Precedence(v)\<close>, which raises \<^verbatim>\<open>ValueError\<close>
  for a number that is not the value of a member.
\<close>

abbreviation (input) Precedence_NONE :: nat where "Precedence_NONE \<equiv> 0"
abbreviation (input) Precedence_ASSIGNMENT :: nat where "Precedence_ASSIGNMENT \<equiv> 1"
abbreviation (input) Precedence_OR :: nat where "Precedence_OR \<equiv> 2"
abbreviation (input) Precedence_AND :: nat where "Precedence_AND \<equiv> 3"
abbreviation (input) Precedence_NOT :: nat where "Precedence_NOT \<equiv> 4"
abbreviation (input) Precedence_COMPARISON :: nat where "Precedence_COMPARISON \<equiv> 5"
abbreviation (input) Precedence_TERM :: nat where "Precedence_TERM \<equiv> 6"
abbreviation (input) Precedence_FACTOR :: nat where "Precedence_FACTOR \<equiv> 7"
abbreviation (input) Precedence_UNARY :: nat where "Precedence_UNARY \<equiv> 8"
abbreviation (input) Precedence_EXPONENT :: nat where "Precedence_EXPONENT \<equiv> 9"
abbreviation (input) Precedence_ATTRIBUTE :: nat where "Precedence_ATTRIBUTE \<equiv> 10"
abbreviation (input) Precedence_CALL :: nat where "Precedence_CALL \<equiv> 11"
abbreviation (input) Precedence_PRIMARY :: nat where "Precedence_PRIMARY \<equiv> 12"

definition Precedence :: "nat \<Rightarrow> nat parsed" where
  "Precedence v = (if v \<le> Precedence_PRIMARY then Parsed v else Raised ValueError)"

text \<open>
  The functions that stand in the table, by name; \<open>call_rule\<close> below calls the function
  that a name stands for.
\<close>

datatype rule_fn =
    fn_grouping | fn_call | fn_make_vector | fn_dot | fn_unary | fn_binary | fn_default
  | fn_identifier | fn_make_int | fn_make_float | fn_python | fn_string | fn_group_name
  | fn_boolean

datatype parse_rule =
  ParseRule (rule_prefix: "rule_fn option") (rule_infix: "rule_fn option") (rule_precedence: nat)

fun rules :: "token_type \<Rightarrow> parse_rule" where
  "rules LEFT_PAREN = ParseRule (Some fn_grouping) (Some fn_call) Precedence_CALL"
| "rules RIGHT_PAREN = ParseRule None None Precedence_NONE"
| "rules LEFT_SQUARE_BRACKET = ParseRule None None Precedence_NONE"
| "rules RIGHT_SQUARE_BRACKET = ParseRule None None Precedence_NONE"
| "rules LEFT_BRACE = ParseRule (Some fn_make_vector) None Precedence_NONE"
| "rules RIGHT_BRACE = ParseRule None None Precedence_NONE"
| "rules COMMA = ParseRule None None Precedence_NONE"
| "rules DOT = ParseRule None (Some fn_dot) Precedence_ATTRIBUTE"
| "rules SEMICOLON = ParseRule None None Precedence_NONE"
| "rules EQUAL = ParseRule None None Precedence_NONE"
| "rules MINUS = ParseRule (Some fn_unary) (Some fn_binary) Precedence_TERM"
| "rules PLUS = ParseRule None (Some fn_binary) Precedence_TERM"
| "rules PERCENT = ParseRule None (Some fn_binary) Precedence_FACTOR"
| "rules SLASH = ParseRule None (Some fn_binary) Precedence_FACTOR"
| "rules HAT = ParseRule None (Some fn_binary) Precedence_EXPONENT"
| "rules GREATER = ParseRule None (Some fn_binary) Precedence_COMPARISON"
| "rules LESS = ParseRule None (Some fn_binary) Precedence_COMPARISON"
| "rules COLON = ParseRule None None Precedence_NONE"
| "rules UNDERSCORE = ParseRule (Some fn_default) None Precedence_NONE"
| "rules STAR = ParseRule None (Some fn_binary) Precedence_FACTOR"
| "rules STAR_STAR = ParseRule None (Some fn_binary) Precedence_EXPONENT"
| "rules ARROW = ParseRule None None Precedence_NONE"
| "rules LESS_EQUAL = ParseRule None (Some fn_binary) Precedence_COMPARISON"
| "rules GREATER_EQUAL = ParseRule None (Some fn_binary) Precedence_COMPARISON"
| "rules EQUAL_EQUAL = ParseRule None (Some fn_binary) Precedence_COMPARISON"
| "rules BANG_EQUAL = ParseRule None (Some fn_binary) Precedence_COMPARISON"
| "rules IDENTIFIER = ParseRule (Some fn_identifier) None Precedence_NONE"
| "rules INT_tok = ParseRule (Some fn_make_int) None Precedence_NONE"
| "rules FLOAT = ParseRule (Some fn_make_float) None Precedence_NONE"
| "rules PYTHON = ParseRule (Some fn_python) None Precedence_NONE"
| "rules STRING = ParseRule (Some fn_string) None Precedence_NONE"
| "rules GROUP_NAME = ParseRule (Some fn_group_name) None Precedence_NONE"
| "rules OUT = ParseRule None None Precedence_NONE"
| "rules FUNCTION = ParseRule None None Precedence_NONE"
| "rules NODEGROUP = ParseRule None None Precedence_NONE"
| "rules LOOP = ParseRule None None Precedence_NONE"
| "rules TRUE = ParseRule (Some fn_boolean) None Precedence_NONE"
| "rules FALSE = ParseRule (Some fn_boolean) None Precedence_NONE"
| "rules NOT = ParseRule (Some fn_unary) None Precedence_NOT"
| "rules OR = ParseRule None (Some fn_binary) Precedence_OR"
| "rules AND = ParseRule None (Some fn_binary) Precedence_AND"
| "rules ERROR = ParseRule None None Precedence_NONE"
| "rules EOL = ParseRule None None Precedence_NONE"

definition get_rule :: "token_type \<Rightarrow> parse_rule" where
  "get_rule type = rules type"

subsection \<open>The functions of the table\<close>

text \<open>
  \<^verbatim>\<open>self.parse_precedence\<close>, as the functions below get it: a precedence and
  \<^verbatim>\<open>skip_advance\<close> in, the node or \<^verbatim>\<open>None\<close> out.
\<close>

type_synonym parse_fn = "nat \<Rightarrow> bool \<Rightarrow> parser \<Rightarrow> (ast option \<times> parser) parsed"

definition expression :: "parse_fn \<Rightarrow> parser \<Rightarrow> (ast option \<times> parser) parsed" where
  "expression pp p = pp Precedence_OR False p"

definition quoted :: "string \<Rightarrow> string" where
  "quoted s = [CHR 0x22] @ s @ [CHR 0x22]"

text \<open>
  \<^verbatim>\<open>int(lexeme)\<close> for a lexeme of decimal digits; for any other lexeme the model raises
  \<^verbatim>\<open>ValueError\<close> (Python also reads a sign, blanks and underscores, which the lexeme of
  an integer token does not have).
\<close>

definition py_int :: "string \<Rightarrow> int option" where
  "py_int s =
     (if s \<noteq> [] \<and> list_all (\<lambda>c. c \<in> set ''0123456789'') s
      then Some (int (foldl (\<lambda>n c. 10 * n + (of_char c - 48)) 0 s))
      else None)"

definition make_int :: "bool \<Rightarrow> parser \<Rightarrow> parser parsed" where
  "make_int can_assign p =
     (let token = previous p in
      case py_int (lexeme token) of
        None \<Rightarrow> Raised ValueError
      | Some v \<Rightarrow> Parsed (p\<lparr>curr_node := Some (Constant token (PyInt v) DT_INT)\<rparr>))"

text \<open>A float is kept as its text; that \<^verbatim>\<open>float(lexeme)\<close> may raise is not modelled.\<close>

definition make_float :: "bool \<Rightarrow> parser \<Rightarrow> parser parsed" where
  "make_float can_assign p =
     (let token = previous p in
      Parsed (p\<lparr>curr_node := Some (Constant token (PyFloat (lexeme token)) DT_FLOAT)\<rparr>))"

definition python :: "bool \<Rightarrow> parser \<Rightarrow> parser parsed" where
  "python can_assign p =
     (let token = previous p;
          expression = tl (lexeme token);
          constant = (\<lambda>converted_value p.
            Parsed (p\<lparr>curr_node := Some (Constant token (PyFloat converted_value) DT_FLOAT)\<rparr>))
      in case host_python p expression of
           EvalFails err \<Rightarrow>
             constant ''0.0'' (error (''Invalid python syntax: '' @ err @ ''.'') p)
         | EvalRaises e \<Rightarrow> Raised e
         | FloatFails err \<Rightarrow>
             constant ''0.0''
               (error (''Expected result of python expression to be a number: '' @ err @ ''.'') p)
         | FloatRaises e \<Rightarrow> Raised e
         | FloatValue converted_value \<Rightarrow> constant converted_value p)"

definition default_rule :: "bool \<Rightarrow> parser \<Rightarrow> parser parsed" where
  "default_rule can_assign p =
     Parsed (p\<lparr>curr_node := Some (Constant (previous p) PyNone DT_DEFAULT)\<rparr>)"

text \<open>
  The loop of \<^verbatim>\<open>identifier\<close> that reads the targets of an assignment, and the like loop of
  \<^verbatim>\<open>out\<close>.
\<close>

definition match_target :: "string \<Rightarrow> ast option list \<Rightarrow> parser \<Rightarrow> ast option list \<times> parser" where
  "match_target message targets p =
     (let (matched, p) = match IDENTIFIER p in
      if matched then (targets @ [Some (Name_expr (previous p) (lexeme (previous p)))], p)
      else
        let (matched, p) = match UNDERSCORE p in
        if matched then (targets @ [None], p)
        else (targets, error_at_current message p))"

primrec identifier_targets ::
  "nat \<Rightarrow> ast option list \<Rightarrow> parser \<Rightarrow> (ast option list \<times> parser) parsed" where
  "identifier_targets 0 targets p = OutOfFuel"
| "identifier_targets (Suc fuel) targets p =
     (if \<not> check EQUAL p
      then
        let (targets, p) =
              match_target
                (''Expect variable name or '' @ quoted ''_'' @ '' separated by '' @ quoted '','' @ ''. '')
                targets p;
            (matched, p) = match COMMA p
        in if \<not> matched then Parsed (targets, p) else identifier_targets fuel targets p
      else Parsed (targets, p))"

definition identifier_rule :: "nat \<Rightarrow> parse_fn \<Rightarrow> bool \<Rightarrow> parser \<Rightarrow> parser parsed" where
  "identifier_rule fuel pp can_assign p =
     (let identifier_token = previous p;
          name = lexeme identifier_token;
          (assigning, p) =
            (if can_assign
             then if check EQUAL p then (True, p) else match COMMA p
             else (False, p))
      in if assigning
         then
           then_parse (identifier_targets fuel [Some (Name_expr identifier_token name)] p)
             (\<lambda>(targets, p).
                let p = consume EQUAL (''Expect '' @ quoted ''='') p;
                    equal_token = previous p
                in then_parse (expression pp p)
                     (\<lambda>(v, p).
                        case v of
                          None \<Rightarrow> Parsed p
                        | Some v \<Rightarrow> Parsed (p\<lparr>curr_node := Some (Assign equal_token targets v)\<rparr>)))
         else Parsed (p\<lparr>curr_node := Some (Name_expr identifier_token name)\<rparr>))"

definition string :: "bool \<Rightarrow> parser \<Rightarrow> parser parsed" where
  "string can_assign p =
     (let token = previous p in
      Parsed (p\<lparr>curr_node :=
                  Some (Constant token (PyStr (butlast (tl (lexeme token)))) DT_STRING)\<rparr>))"

definition boolean :: "bool \<Rightarrow> parser \<Rightarrow> parser parsed" where
  "boolean can_assign p =
     (let token = previous p in
      Parsed (p\<lparr>curr_node :=
                  Some (Constant token (PyBool (lexeme token = ''true'')) DT_BOOL)\<rparr>))"

definition grouping :: "parse_fn \<Rightarrow> bool \<Rightarrow> parser \<Rightarrow> parser parsed" where
  "grouping pp can_assign p =
     then_parse (expression pp p)
       (\<lambda>(node, p).
          Parsed (consume RIGHT_PAREN
                    (''Expect closing '' @ quoted '')'' @ '' after expression.'')
                    (p\<lparr>curr_node := node\<rparr>)))"

definition unary :: "parse_fn \<Rightarrow> bool \<Rightarrow> parser \<Rightarrow> parser parsed" where
  "unary pp can_assign p =
     (let operator_token = previous p;
          operator_type = token_type operator_token
      in then_parse (pp Precedence_UNARY False p)
           (\<lambda>(operand, p).
              case operand of
                None \<Rightarrow> Parsed p
              | Some operand \<Rightarrow>
                  if operator_type = MINUS
                  then Parsed (p\<lparr>curr_node :=
                         Some (UnaryOp operator_token (USub operator_token) operand)\<rparr>)
                  else if operator_type = NOT
                  then Parsed (p\<lparr>curr_node :=
                         Some (UnaryOp operator_token (Not_op operator_token) operand)\<rparr>)
                  else Raised AssertionError))"

definition make_vector :: "parse_fn \<Rightarrow> bool \<Rightarrow> parser \<Rightarrow> parser parsed" where
  "make_vector pp can_assign p =
     (let bracket_token = previous p;
          zero = Some (Constant bracket_token (PyInt 0) DT_DEFAULT);
          (closed, p) = match RIGHT_BRACE p
      in then_parse
           (if \<not> closed
            then
              then_parse (expression pp p)
                (\<lambda>(x, p).
                   let (matched, p) = match COMMA p in
                   then_parse (if matched then expression pp p else Parsed (zero, p))
                     (\<lambda>(y, p).
                        let (matched, p) = match COMMA p in
                        then_parse (if matched then expression pp p else Parsed (zero, p))
                          (\<lambda>(z, p).
                             Parsed (x, y, z,
                               consume RIGHT_BRACE (''Expect closing '' @ quoted ''}'' @ ''.'') p))))
            else Parsed (zero, zero, zero, p))
           (\<lambda>(x, y, z, p).
              case x of
                None \<Rightarrow> Parsed p
              | Some x \<Rightarrow>
                  (case y of
                     None \<Rightarrow> Parsed p
                   | Some y \<Rightarrow>
                       (case z of
                          None \<Rightarrow> Parsed p
                        | Some z \<Rightarrow> Parsed (p\<lparr>curr_node := Some (Vec3 bracket_token x y z)\<rparr>)))))"

text \<open>
  \<^verbatim>\<open>call_args\<close>: the inner loop, that reads keyword arguments after the first one, and
  the outer loop. \<^verbatim>\<open>None\<close> for the arguments is the \<^verbatim>\<open>return None\<close> of \<^verbatim>\<open>call_args\<close>.
\<close>

primrec keyword_args_loop ::
  "nat \<Rightarrow> parse_fn \<Rightarrow> keyword list \<Rightarrow> parser \<Rightarrow> (keyword list option \<times> parser) parsed" where
  "keyword_args_loop 0 pp keyword_args p = OutOfFuel"
| "keyword_args_loop (Suc fuel) pp keyword_args p =
     (let (matched, p) = match COMMA p in
      if matched
      then
        let p = consume IDENTIFIER ''No positional arguments allowed after keyword argument.'' p;
            arg_token = previous p;
            p = consume EQUAL (''Expect '' @ quoted ''='' @ '' after keyword.'') p
        in then_parse (expression pp p)
             (\<lambda>(v, p).
                case v of
                  None \<Rightarrow> Parsed (None, p)
                | Some v \<Rightarrow>
                    keyword_args_loop fuel pp
                      (keyword_args @ [Keyword arg_token (lexeme arg_token) v]) p)
      else Parsed (Some keyword_args, p))"

primrec call_args_loop ::
  "nat \<Rightarrow> nat \<Rightarrow> parse_fn \<Rightarrow> ast list \<Rightarrow> keyword list \<Rightarrow> parser
     \<Rightarrow> ((ast list \<times> keyword list) option \<times> parser) parsed" where
  "call_args_loop 0 n pp pos_args keyword_args p = OutOfFuel"
| "call_args_loop (Suc fuel) n pp pos_args keyword_args p =
     (let (matched, p) = match COMMA p in
      if matched \<or> token_type (previous p) = LEFT_PAREN
      then
        let (matched, p) = match IDENTIFIER p in
        if matched
        then
          if check EQUAL p
          then
            let arg_token = previous p;
                p = advance p
            in then_parse (expression pp p)
                 (\<lambda>(v, p).
                    case v of
                      None \<Rightarrow> Parsed (None, p)
                    | Some v \<Rightarrow>
                        then_parse
                          (keyword_args_loop n pp
                             (keyword_args @ [Keyword arg_token (lexeme arg_token) v]) p)
                          (\<lambda>(more, p).
                             case more of
                               None \<Rightarrow> Parsed (None, p)
                             | Some keyword_args \<Rightarrow>
                                 call_args_loop fuel n pp pos_args keyword_args p))
          else
            then_parse (pp Precedence_OR True p)
              (\<lambda>(pos_arg, p).
                 case pos_arg of
                   None \<Rightarrow> Parsed (None, p)
                 | Some pos_arg \<Rightarrow>
                     call_args_loop fuel n pp (pos_args @ [pos_arg]) keyword_args p)
        else
          then_parse (expression pp p)
            (\<lambda>(pos_arg, p).
               case pos_arg of
                 None \<Rightarrow> Parsed (None, p)
               | Some pos_arg \<Rightarrow>
                   call_args_loop fuel n pp (pos_args @ [pos_arg]) keyword_args p)
      else Parsed (Some (pos_args, keyword_args), p))"

definition call_args ::
  "nat \<Rightarrow> parse_fn \<Rightarrow> parser \<Rightarrow> ((ast list \<times> keyword list) option \<times> parser) parsed" where
  "call_args fuel pp p =
     then_parse
       (if \<not> check RIGHT_PAREN p then call_args_loop fuel fuel pp [] [] p
        else Parsed (Some ([], []), p))
       (\<lambda>(ret, p).
          case ret of
            None \<Rightarrow> Parsed (None, p)
          | Some args \<Rightarrow>
              Parsed (Some args,
                consume RIGHT_PAREN (''Expect '' @ quoted '')'' @ '' after arguments.'') p))"

text \<open>
  The rewriting of the arguments of \<^verbatim>\<open>join_geometry\<close>, which \<^verbatim>\<open>group_name\<close> and \<^verbatim>\<open>call\<close>
  both do.
\<close>

fun is_join_geometry :: "ast \<Rightarrow> bool" where
  "is_join_geometry (Name_expr t name) = (name = ''join_geometry'')"
| "is_join_geometry func = False"

definition join_geometry_args :: "token \<Rightarrow> ast \<Rightarrow> ast list \<Rightarrow> ast list" where
  "join_geometry_args token func pos_args =
     (if is_join_geometry func \<and> length pos_args > 1
      then [ListLiteral_expr token pos_args] else pos_args)"

definition group_name :: "nat \<Rightarrow> parse_fn \<Rightarrow> bool \<Rightarrow> parser \<Rightarrow> parser parsed" where
  "group_name fuel pp can_assign p =
     (let token = previous p;
          func = Name_expr token (butlast (drop 2 (lexeme token)));
          p = consume LEFT_PAREN (''Expect '' @ quoted ''('' @ '' after node group name.'') p
      in then_parse (call_args fuel pp p)
           (\<lambda>(ret, p).
              case ret of
                None \<Rightarrow> Parsed p
              | Some (pos_args, keyword_args) \<Rightarrow>
                  Parsed (p\<lparr>curr_node :=
                    Some (Call token func (join_geometry_args token func pos_args)
                            keyword_args)\<rparr>)))"

fun is_name_or_attribute :: "ast \<Rightarrow> bool" where
  "is_name_or_attribute (Name_expr t name) = True"
| "is_name_or_attribute (Attribute t v name) = True"
| "is_name_or_attribute func = False"

definition call :: "nat \<Rightarrow> parse_fn \<Rightarrow> bool \<Rightarrow> parser \<Rightarrow> parser parsed" where
  "call fuel pp can_assign p =
     (let token = previous p in
      case curr_node p of
        None \<Rightarrow> Raised AssertionError
      | Some func \<Rightarrow>
          if \<not> is_name_or_attribute func
          then Parsed (error ''Expected function name to call.'' p)
          else
            then_parse (call_args fuel pp p)
              (\<lambda>(ret, p).
                 case ret of
                   None \<Rightarrow> Parsed p
                 | Some (pos_args, keyword_args) \<Rightarrow>
                     Parsed (p\<lparr>curr_node :=
                       Some (Call token func (join_geometry_args token func pos_args)
                               keyword_args)\<rparr>)))"

definition dot :: "bool \<Rightarrow> parser \<Rightarrow> parser parsed" where
  "dot can_assign p =
     (let token = previous p;
          p = consume IDENTIFIER
                (''Expect output name or function call after '' @ quoted ''.'' @ ''.'') p;
          identifier_token = previous p
      in case curr_node p of
           None \<Rightarrow> Parsed p
         | Some v \<Rightarrow>
             if \<not> is_expr v then Raised AssertionError
             else Parsed (p\<lparr>curr_node := Some (Attribute token v (lexeme identifier_token))\<rparr>))"

text \<open>The operator that \<^verbatim>\<open>binary\<close> makes of the operator token; \<^verbatim>\<open>None\<close> is its last branch.\<close>

definition binary_operation :: "token \<Rightarrow> operator option" where
  "binary_operation operator_token =
     (let operator_type = token_type operator_token in
      if operator_type = PLUS then Some (Add operator_token)
      else if operator_type = MINUS then Some (Sub operator_token)
      else if operator_type = SLASH then Some (Div operator_token)
      else if operator_type = STAR then Some (Mult operator_token)
      else if operator_type = PERCENT then Some (Mod operator_token)
      else if operator_type \<in> {STAR_STAR, HAT} then Some (Pow_op operator_token)
      else if operator_type = GREATER then Some (Gt operator_token)
      else if operator_type = GREATER_EQUAL then Some (GtE operator_token)
      else if operator_type = LESS then Some (Lt operator_token)
      else if operator_type = LESS_EQUAL then Some (LtE operator_token)
      else if operator_type = EQUAL_EQUAL then Some (Eq operator_token)
      else if operator_type = BANG_EQUAL then Some (NotEq operator_token)
      else if operator_type = AND then Some (And operator_token)
      else if operator_type = OR then Some (Or operator_token)
      else None)"

definition binary :: "parse_fn \<Rightarrow> bool \<Rightarrow> parser \<Rightarrow> parser parsed" where
  "binary pp can_assign p =
     (let operator_token = previous p;
          operator_type = token_type operator_token;
          left = curr_node p;
          rule = get_rule operator_type
      in then_parse (Precedence (rule_precedence rule + 1))
           (\<lambda>precedence.
              then_parse (pp precedence False p)
                (\<lambda>(right, p).
                   case left of
                     None \<Rightarrow> Parsed p
                   | Some left \<Rightarrow>
                       (case right of
                          None \<Rightarrow> Parsed p
                        | Some right \<Rightarrow>
                            if \<not> (is_expr left \<and> is_expr right) then Raised AssertionError
                            else
                              (case binary_operation operator_token of
                                 None \<Rightarrow> Raised AssertionError
                               | Some operation_node \<Rightarrow>
                                   Parsed (p\<lparr>curr_node :=
                                     Some (BinOp operator_token left operation_node right)\<rparr>))))))"

text \<open>Calling a function of the table.\<close>

fun call_rule :: "rule_fn \<Rightarrow> nat \<Rightarrow> parse_fn \<Rightarrow> bool \<Rightarrow> parser \<Rightarrow> parser parsed" where
  "call_rule fn_grouping fuel pp can_assign p = grouping pp can_assign p"
| "call_rule fn_call fuel pp can_assign p = call fuel pp can_assign p"
| "call_rule fn_make_vector fuel pp can_assign p = make_vector pp can_assign p"
| "call_rule fn_dot fuel pp can_assign p = dot can_assign p"
| "call_rule fn_unary fuel pp can_assign p = unary pp can_assign p"
| "call_rule fn_binary fuel pp can_assign p = binary pp can_assign p"
| "call_rule fn_default fuel pp can_assign p = default_rule can_assign p"
| "call_rule fn_identifier fuel pp can_assign p = identifier_rule fuel pp can_assign p"
| "call_rule fn_make_int fuel pp can_assign p = make_int can_assign p"
| "call_rule fn_make_float fuel pp can_assign p = make_float can_assign p"
| "call_rule fn_python fuel pp can_assign p = python can_assign p"
| "call_rule fn_string fuel pp can_assign p = string can_assign p"
| "call_rule fn_group_name fuel pp can_assign p = group_name fuel pp can_assign p"
| "call_rule fn_boolean fuel pp can_assign p = boolean can_assign p"

subsection \<open>\<^verbatim>\<open>parse_precedence\<close>\<close>

text \<open>
  The loop of \<^verbatim>\<open>parse_precedence\<close> over the infix operators; calling the infix rule of a
  token that has none, which is \<^verbatim>\<open>None\<close>, raises \<^verbatim>\<open>TypeError\<close>.
\<close>

primrec infix_loop ::
  "nat \<Rightarrow> nat \<Rightarrow> parse_fn \<Rightarrow> nat \<Rightarrow> bool \<Rightarrow> parser \<Rightarrow> parser parsed" where
  "infix_loop 0 n pp precedence can_assign p = OutOfFuel"
| "infix_loop (Suc fuel) n pp precedence can_assign p =
     (if precedence \<le> rule_precedence (get_rule (token_type (current p)))
      then
        let p = advance p in
        case rule_infix (get_rule (token_type (previous p))) of
          None \<Rightarrow> Raised TypeError
        | Some infix_rule \<Rightarrow>
            then_parse (call_rule infix_rule n pp can_assign p)
              (infix_loop fuel n pp precedence can_assign)
      else Parsed p)"

primrec parse_precedence :: "nat \<Rightarrow> parse_fn" where
  "parse_precedence 0 precedence skip_advance p = OutOfFuel"
| "parse_precedence (Suc fuel) precedence skip_advance p =
     (let p = (if \<not> skip_advance then advance p else p) in
      case rule_prefix (get_rule (token_type (previous p))) of
        None \<Rightarrow> Parsed (None, error ''Expect expression.'' p)
      | Some prefix_rule \<Rightarrow>
          let can_assign = (precedence \<le> Precedence_ASSIGNMENT) in
          then_parse (call_rule prefix_rule fuel (parse_precedence fuel) can_assign p)
            (\<lambda>p.
               then_parse (infix_loop fuel fuel (parse_precedence fuel) precedence can_assign p)
                 (\<lambda>p.
                    let p = (if can_assign
                             then let (matched, p) = match EQUAL p in
                                  if matched then error ''Invalid assignment target.'' p else p
                             else p);
                        p = (if curr_node p = None
                             then error ''Expected expression with a value.'' p else p)
                    in case curr_node p of
                         None \<Rightarrow> Parsed (None, p)
                       | Some node \<Rightarrow>
                           if \<not> can_assign \<and> \<not> is_expr node then Raised AssertionError
                           else Parsed (Some node, p))))"

subsection \<open>Statements and declarations\<close>

definition statement :: "parse_fn \<Rightarrow> parser \<Rightarrow> (ast option \<times> parser) parsed" where
  "statement pp p =
     then_parse (pp Precedence_ASSIGNMENT False p)
       (\<lambda>(node, p).
          let (matched, p) = match SEMICOLON p in
          Parsed (node, p\<lparr>curr_node := None\<rparr>))"

definition parse_type :: "parser \<Rightarrow> data_type \<times> parser" where
  "parse_type p =
     (let p = consume COLON ''Expected type after argument name.'' p;
          (matched, p) = match IDENTIFIER p
      in if matched
         then
           (case string_to_data_type p (lexeme (previous p)) of
              Some dtype \<Rightarrow> (dtype, p)
            | None \<Rightarrow>
                (DT_UNKNOWN, error (''Invalid data type: '' @ lexeme (previous p) @ ''.'') p))
         else (DT_UNKNOWN, error ''Expected a data type'' p))"

definition parse_arg :: "parse_fn \<Rightarrow> parser \<Rightarrow> (arg \<times> parser) parsed" where
  "parse_arg pp p =
     (let p = consume IDENTIFIER ''Expect argument name'' p;
          token = previous p;
          name = lexeme token;
          (var_type, p) = parse_type p;
          (matched, p) = match EQUAL p
      in then_parse (if matched then expression pp p else Parsed (None, p))
           (\<lambda>(default, p). Parsed (Arg token name var_type default, p)))"

primrec out_targets ::
  "nat \<Rightarrow> ast option list \<Rightarrow> parser \<Rightarrow> (ast option list \<times> parser) parsed" where
  "out_targets 0 targets p = OutOfFuel"
| "out_targets (Suc fuel) targets p =
     (let (matched, p) = match EQUAL p in
      if \<not> matched
      then
        let (targets, p) =
              match_target
                (''Expect variable name or '' @ quoted ''_'' @ '' after '' @ quoted ''out'' @ ''.'')
                targets p;
            (matched, p) = match COMMA p
        in if \<not> matched
           then Parsed (targets, consume EQUAL (''Expected '' @ quoted ''='' @ ''. '') p)
           else out_targets fuel targets p
      else Parsed (targets, p))"

definition out :: "nat \<Rightarrow> parse_fn \<Rightarrow> parser \<Rightarrow> (ast option \<times> parser) parsed" where
  "out fuel pp p =
     (let token = previous p in
      then_parse (out_targets fuel [] p)
        (\<lambda>(targets, p).
           let p = (if targets = []
                    then error_at token
                           (''Expect variable name or '' @ quoted ''_'' @ '' after ''
                              @ quoted ''out'' @ ''.'') p
                    else p)
           in then_parse (expression pp p)
                (\<lambda>(v, p).
                   case v of
                     None \<Rightarrow> Parsed (None, p)
                   | Some v \<Rightarrow>
                       let (matched, p) = match SEMICOLON p in
                       Parsed (Some (Out token targets v), p\<lparr>curr_node := None\<rparr>))))"

text \<open>
  The loops of \<^verbatim>\<open>parse_func_structure\<close>: over the arguments, over the returned
  values, and over the statements of the body; \<^verbatim>\<open>loop\<close> has the same loop over its body.
  the argument \<open>declaration\<close> is \<^verbatim>\<open>self.declaration\<close>.
\<close>

primrec args_loop :: "nat \<Rightarrow> parse_fn \<Rightarrow> arg list \<Rightarrow> parser \<Rightarrow> (arg list \<times> parser) parsed" where
  "args_loop 0 pp args p = OutOfFuel"
| "args_loop (Suc fuel) pp args p =
     (if \<not> check RIGHT_PAREN p
      then
        then_parse (parse_arg pp p)
          (\<lambda>(a, p).
             let (matched, p) = match COMMA p in
             if \<not> matched then Parsed (args @ [a], p) else args_loop fuel pp (args @ [a]) p)
      else Parsed (args, p))"

primrec returns_loop ::
  "nat \<Rightarrow> parse_fn \<Rightarrow> arg list \<Rightarrow> parser \<Rightarrow> (arg list \<times> parser) parsed" where
  "returns_loop 0 pp returns p = OutOfFuel"
| "returns_loop (Suc fuel) pp returns p =
     (let (matched, p) = match COMMA p in
      if matched
      then then_parse (parse_arg pp p) (\<lambda>(a, p). returns_loop fuel pp (returns @ [a]) p)
      else Parsed (returns, p))"

primrec body_loop ::
  "nat \<Rightarrow> (parser \<Rightarrow> (ast option \<times> parser) parsed) \<Rightarrow> ast list \<Rightarrow> parser
     \<Rightarrow> (ast list \<times> parser) parsed" where
  "body_loop 0 declaration body p = OutOfFuel"
| "body_loop (Suc fuel) declaration body p =
     (let (at_end, p) = (if check RIGHT_BRACE p then (True, p) else match EOL p) in
      if \<not> at_end
      then
        then_parse (declaration p)
          (\<lambda>(stmt, p).
             case stmt of
               None \<Rightarrow> body_loop fuel declaration body p
             | Some stmt \<Rightarrow> body_loop fuel declaration (body @ [stmt]) p)
      else Parsed (body, p))"

definition parse_func_structure ::
  "nat \<Rightarrow> parse_fn \<Rightarrow> (parser \<Rightarrow> (ast option \<times> parser) parsed) \<Rightarrow> parser
     \<Rightarrow> ((arg list \<times> ast list \<times> arg list) \<times> parser) parsed" where
  "parse_func_structure fuel pp declaration p =
     (let p = consume LEFT_PAREN (''Expect '' @ quoted ''('' @ '' after name.'') p in
      then_parse (args_loop fuel pp [] p)
        (\<lambda>(args, p).
           let p = consume RIGHT_PAREN (''Expect closing '' @ quoted '')'' @ ''.'') p;
               (matched, p) = match ARROW p
           in then_parse
                (if matched
                 then then_parse (parse_arg pp p) (\<lambda>(a, p). returns_loop fuel pp [a] p)
                 else Parsed ([], p))
                (\<lambda>(returns, p).
                   let p = consume LEFT_BRACE ''Expect function body.'' p in
                   then_parse (body_loop fuel declaration [] p)
                     (\<lambda>(body, p).
                        let p = consume RIGHT_BRACE (''Expect closing '' @ quoted ''}'' @ ''.'') p
                        in Parsed ((args, body, returns), p\<lparr>curr_node := None\<rparr>)))))"

text \<open>
  \<^verbatim>\<open>function_def\<close> and \<^verbatim>\<open>nodegroup_def\<close> differ in the message and in the node they make.
\<close>

definition def_name :: "string \<Rightarrow> parser \<Rightarrow> (token \<times> string) \<times> parser" where
  "def_name message p =
     (let (matched, p) = match IDENTIFIER p;
          (matched, p) = (if matched then (True, p) else match STRING p);
          p = (if \<not> matched then error message p else p);
          token = previous p;
          name = lexeme token;
          name = (if token_type token = STRING then butlast (tl name) else name)
      in ((token, name), p))"

definition function_def ::
  "nat \<Rightarrow> parse_fn \<Rightarrow> (parser \<Rightarrow> (ast option \<times> parser) parsed) \<Rightarrow> parser
     \<Rightarrow> (ast \<times> parser) parsed" where
  "function_def fuel pp declaration p =
     (let ((token, name), p) = def_name ''Expected function name.'' p in
      then_parse (parse_func_structure fuel pp declaration p)
        (\<lambda>((args, body, returns), p). Parsed (FunctionDef token name args body returns, p)))"

definition nodegroup_def ::
  "nat \<Rightarrow> parse_fn \<Rightarrow> (parser \<Rightarrow> (ast option \<times> parser) parsed) \<Rightarrow> parser
     \<Rightarrow> (ast \<times> parser) parsed" where
  "nodegroup_def fuel pp declaration p =
     (let ((token, name), p) = def_name ''Expected node group name.'' p in
      then_parse (parse_func_structure fuel pp declaration p)
        (\<lambda>((args, body, returns), p). Parsed (NodegroupDef token name args body returns, p)))"

definition consume_int :: "parser \<Rightarrow> (int \<times> parser) parsed" where
  "consume_int p =
     (let p = consume INT_tok ''Expected an integer'' p in
      if panic_mode p then Parsed (0, p)
      else
        (case py_int (lexeme (previous p)) of
           None \<Rightarrow> Raised ValueError
         | Some v \<Rightarrow> Parsed (v, p)))"

definition parse_int :: "parser \<Rightarrow> (int \<times> parser) parsed" where
  "parse_int p =
     (let (matched, p) = match MINUS p in
      if matched
      then then_parse (consume_int p) (\<lambda>(v, p). Parsed (- v, p))
      else consume_int p)"

definition loop ::
  "nat \<Rightarrow> (parser \<Rightarrow> (ast option \<times> parser) parsed) \<Rightarrow> parser \<Rightarrow> (ast \<times> parser) parsed" where
  "loop fuel declaration p =
     (let token = previous p;
          (matched, p) = match IDENTIFIER p;
          (var, p) =
            (if matched
             then (Some (Name_expr (previous p) (lexeme (previous p))),
                   consume EQUAL (''Expect '' @ quoted ''='' @ '' after loop variable.'') p)
             else (None, p))
      in then_parse (parse_int p)
           (\<lambda>(bound, p).
              let (matched, p) = match ARROW p in
              then_parse
                (if matched
                 then then_parse (parse_int p) (\<lambda>(bound', p). Parsed ((bound, bound'), p))
                 else Parsed ((1, bound), p))
                (\<lambda>((start_value, end_value), p).
                   let p = consume LEFT_BRACE ''Expect loop body.'' p in
                   then_parse (body_loop fuel declaration [] p)
                     (\<lambda>(body, p).
                        let p = consume RIGHT_BRACE (''Expect closing '' @ quoted ''}'' @ ''.'') p
                        in Parsed (Loop token var start_value end_value body, p\<lparr>curr_node := None\<rparr>)))))"

primrec declaration_stmt :: "nat \<Rightarrow> parser \<Rightarrow> (ast option \<times> parser) parsed" where
  "declaration_stmt 0 p = OutOfFuel"
| "declaration_stmt (Suc fuel) p =
     (let some = (\<lambda>(node, p). Parsed (Some node, p));
          (matched, p) = match OUT p
      in if matched then out fuel (parse_precedence fuel) p
         else
           let (matched, p) = match FUNCTION p in
           if matched
           then then_parse (function_def fuel (parse_precedence fuel) (declaration_stmt fuel) p) some
           else
             let (matched, p) = match NODEGROUP p in
             if matched
             then then_parse (nodegroup_def fuel (parse_precedence fuel) (declaration_stmt fuel) p) some
             else
               let (matched, p) = match LOOP p in
               if matched then then_parse (loop fuel (declaration_stmt fuel) p) some
               else statement (parse_precedence fuel) p)"

subsection \<open>\<^verbatim>\<open>parse\<close>\<close>

primrec parse_loop :: "nat \<Rightarrow> nat \<Rightarrow> ast list \<Rightarrow> parser \<Rightarrow> (ast list \<times> parser) parsed" where
  "parse_loop 0 n body p = OutOfFuel"
| "parse_loop (Suc fuel) n body p =
     (let (matched, p) = match EOL p in
      if \<not> matched
      then
        then_parse (declaration_stmt n p)
          (\<lambda>(statement, p).
             let body = (case statement of None \<Rightarrow> body | Some s \<Rightarrow> body @ [s]);
                 p = (if panic_mode p then synchronize p else p)
             in parse_loop fuel n body p)
      else Parsed (body, p))"

definition parse :: "nat \<Rightarrow> parser \<Rightarrow> (module \<times> parser) parsed" where
  "parse fuel p =
     then_parse (parse_loop fuel fuel [] p) (\<lambda>(body, p). Parsed (Module body, p))"

subsection \<open>Token streams to run the parser on\<close>

text \<open>A token of the first line, at a column, and an error token with its message.\<close>

definition token_at :: "nat \<Rightarrow> token_type \<Rightarrow> string \<Rightarrow> token" where
  "token_at column type text =
     \<lparr>lexeme = text, token_type = type, line = 1, col = column, start = column - 1,
      token_error = None\<rparr>"

definition error_token_at :: "nat \<Rightarrow> string \<Rightarrow> string \<Rightarrow> token" where
  "error_token_at column text message =
     \<lparr>lexeme = text, token_type = ERROR, line = 1, col = column, start = column - 1,
      token_error = Some message\<rparr>"


definition diagnosed :: "(module \<times> parser) parsed \<Rightarrow> (token \<times> string) list parsed" where
  "diagnosed r =
     then_parse r (\<lambda>(m, p). Parsed (map (\<lambda>e. case e of Error t text \<Rightarrow> (t, text)) (errors p)))"

text \<open>
  An operand that is one token, with the node the parser makes of it: an integer, a float
  or a name.
\<close>

definition atom :: "token \<Rightarrow> ast option" where
  "atom t =
     (if token_type t = INT_tok
      then map_option (\<lambda>v. Constant t (PyInt v) DT_INT) (py_int (lexeme t))
      else if token_type t = FLOAT then Some (Constant t (PyFloat (lexeme t)) DT_FLOAT)
      else if token_type t = IDENTIFIER then Some (Name_expr t (lexeme t))
      else None)"

text \<open>
  A chain of operators and operands: every operator has the rule \<^verbatim>\<open>binary\<close> and the
  precedence \<open>q\<close> in the table, every operand is one token. \<open>chain_tokens\<close> is the chain as
  the scanner delivers it, and \<open>left_nested left chain\<close> is the tree in which the chain is
  applied to \<open>left\<close> operator by operator, from the left.
\<close>

definition binary_at :: "nat \<Rightarrow> token \<Rightarrow> bool" where
  "binary_at q op \<longleftrightarrow>
     rule_infix (get_rule (token_type op)) = Some fn_binary \<and>
     rule_precedence (get_rule (token_type op)) = q"




section \<open>Properties of the interpreter\<close>

lemmas interp_induct =
  operation_operation_kind_run_body_eval_elements_execute_node_group.induct

lemma operation_not_literal:
  "\<not> isinstance_ListLiteral op_data \<Longrightarrow>
   operation (Operation op_type op_data) s = operation_kind op_type op_data s"
  by (cases op_data) simp_all

lemma operation_literal:
  "operation (Operation op_type (ListLiteral elements)) s =
     and_then (eval_elements elements [] s)
       (\<lambda>(evaluated_elements, s1).
          Returns (s1\<lparr>stack := stack s1 @ [PyList evaluated_elements]\<rparr>))"
  by simp

lemma operation_plain [simp]:
  "operation (Operation op_type PyNone) s = operation_kind op_type PyNone s"
  "operation (Operation op_type (PyBool b)) s = operation_kind op_type (PyBool b) s"
  "operation (Operation op_type (PyInt i)) s = operation_kind op_type (PyInt i) s"
  "operation (Operation op_type (PyFloat f)) s = operation_kind op_type (PyFloat f) s"
  "operation (Operation op_type (PyStr str)) s = operation_kind op_type (PyStr str) s"
  "operation (Operation op_type (PyTuple vs)) s = operation_kind op_type (PyTuple vs) s"
  "operation (Operation op_type (PyList vs)) s = operation_kind op_type (PyList vs) s"
  "operation (Operation op_type (NodeSocket k)) s = operation_kind op_type (NodeSocket k) s"
  "operation (Operation op_type (Name x)) s = operation_kind op_type (Name x) s"
  "operation (Operation op_type (CompiledFunction ins n body)) s
     = operation_kind op_type (CompiledFunction ins n body) s"
  "operation (Operation op_type (CompiledNodeGroup name gi go body)) s
     = operation_kind op_type (CompiledNodeGroup name gi go body) s"
  "operation (Operation op_type (NodeInstance key props ni no)) s
     = operation_kind op_type (NodeInstance key props ni no) s"
  "operation (Operation op_type (PyObject ob)) s = operation_kind op_type (PyObject ob) s"
  by simp_all

declare operation.simps [simp del]
declare operation_literal [simp]

lemma operation_kind_simple:
  "op_type \<noteq> CALL_FUNCTION \<Longrightarrow> op_type \<noteq> CALL_NODEGROUP \<Longrightarrow>
   operation_kind op_type op_data s = operation_simple op_type op_data s"
  by (cases op_type) simp_all

lemma as_int_not_literal: "as_int op_data = Some i \<Longrightarrow> \<not> isinstance_ListLiteral op_data"
  by (cases op_data) simp_all

subsection \<open>\<^verbatim>\<open>GET_OUTPUT\<close>\<close>

lemma py_index_reversed:
  assumes "0 \<le> index" and "index < int (length struct)"
  shows "py_index struct (- index - 1) = Returns (struct ! (length struct - 1 - nat index))"
proof -
  have "nat (int (length struct) + (- index - 1)) = length struct - 1 - nat index"
    using assms by linarith
  then show ?thesis
    using assms by (simp add: py_index_def py_position_def)
qed

text \<open>
  C4. \<^verbatim>\<open>GET_OUTPUT(index)\<close> on a stack whose top is a struct of \<open>n\<close> values, with
  \<open>0 \<le> index < n\<close>: the struct is popped and the element at position \<open>n - 1 - index\<close> is
  pushed; the rest of the stack and every other field of the interpreter stay as they
  were.
\<close>

theorem get_output_pushes_reversed_position:
  assumes "as_int op_data = Some index" and "0 \<le> index" and "index < int (length struct)"
  shows "operation (Operation GET_OUTPUT op_data) (s\<lparr>stack := rest @ [PyList struct]\<rparr>)
         = Returns (s\<lparr>stack := rest @ [struct ! (length struct - 1 - nat index)]\<rparr>)"
  using assms(1) py_index_reversed[OF assms(2,3)]
  by (simp add: operation_not_literal[OF as_int_not_literal[OF assms(1)]]
      operation_kind_simple operation_simple_def py_pop_def)

theorem get_output_pushes_reversed_position_witness:
  "operation (Operation GET_OUTPUT (PyInt 0))
     (interp0\<lparr>stack := [PyInt 7, PyList [PyStr ''a'', PyStr ''b'', PyStr ''c'']]\<rparr>)
   = Returns (interp0\<lparr>stack := [PyInt 7, PyStr ''c'']\<rparr>)"
  using get_output_pushes_reversed_position
    [where op_data = "PyInt 0" and index = 0 and s = interp0 and rest = "[PyInt 7]"
       and struct = "[PyStr ''a'', PyStr ''b'', PyStr ''c'']"]
  by simp

subsection \<open>\<^verbatim>\<open>PACK_LIST\<close> and \<^verbatim>\<open>SPLIT_STRUCT\<close>\<close>

lemma pop_many_append:
  "pop_many (length vs) (rest @ vs) = Returns (rev vs, rest)"
proof (induction vs rule: rev_induct)
  case Nil
  show ?case by simp
next
  case (snoc v vs)
  have "py_pop (rest @ vs @ [v]) = Returns (v, rest @ vs)"
    by (simp add: py_pop_def butlast_append)
  with snoc show ?case by simp
qed

lemma pack_list_packs:
  "operation (Operation PACK_LIST (PyInt (int (length vs)))) (s\<lparr>stack := rest @ vs\<rparr>)
   = Returns (s\<lparr>stack := rest @ [PyList vs]\<rparr>)"
  by (simp add: operation_simple_def pop_many_append)

lemma split_struct_splits:
  "operation (Operation SPLIT_STRUCT PyNone) (s\<lparr>stack := rest @ [PyList vs]\<rparr>)
   = Returns (s\<lparr>stack := rest @ vs\<rparr>)"
  by (simp add: operation_simple_def py_pop_def)

text \<open>
  C8. On every stack, \<^verbatim>\<open>PACK_LIST(n)\<close> over the \<open>n\<close> values \<open>vs\<close> on top of it leaves one
  list holding \<open>vs\<close> in stack order, and \<^verbatim>\<open>SPLIT_STRUCT\<close> right after it gives back the
  stack as it was; no other field of the interpreter changes.
\<close>

theorem pack_list_split_struct_round_trip:
  "operation (Operation PACK_LIST (PyInt (int (length vs)))) (s\<lparr>stack := rest @ vs\<rparr>)
     = Returns (s\<lparr>stack := rest @ [PyList vs]\<rparr>) \<and>
   run_body [Operation PACK_LIST (PyInt (int (length vs))), Operation SPLIT_STRUCT PyNone]
     (s\<lparr>stack := rest @ vs\<rparr>)
     = Returns (s\<lparr>stack := rest @ vs\<rparr>)"
  using pack_list_packs[where vs = vs and s = s and rest = rest]
    split_struct_splits[where s = s and rest = rest and vs = vs]
  by simp

subsection \<open>\<^verbatim>\<open>CREATE_VAR\<close>\<close>

text \<open>
  A set of names, each unbound or bound to a name of the set, is never left by the
  loop: it does not return.
\<close>

lemma chase_name_loops:
  assumes closed: "\<And>y. y \<in> L \<Longrightarrow> vars y = None \<or> (\<exists>z \<in> L. vars y = Some (Name z))"
    and x: "x \<in> L"
  shows "chase_name vars (Name x) = None"
proof (cases "chase_name vars (Name x)")
  case None
  then show ?thesis .
next
  case (Some r0)
  have "\<not> (vars = vars \<and> (\<exists>y \<in> L. Name x = Name y))"
  proof (rule chase_name.raw_induct
      [where P = "\<lambda>vs v r. \<not> (vs = vars \<and> (\<exists>y \<in> L. v = Name y))", OF _ Some])
    fix chase vs socket r
    assume IH: "\<And>vs' b y. chase vs' b = Some y \<Longrightarrow> \<not> (vs' = vars \<and> (\<exists>y \<in> L. b = Name y))"
      and step: "(case socket of
                    Name var_id \<Rightarrow> chase vs (case vs var_id of None \<Rightarrow> socket | Some v \<Rightarrow> v)
                  | _ \<Rightarrow> Some socket) = Some r"
    show "\<not> (vs = vars \<and> (\<exists>y \<in> L. socket = Name y))"
    proof
      assume a: "vs = vars \<and> (\<exists>y \<in> L. socket = Name y)"
      then obtain y where y: "y \<in> L" "socket = Name y" by blast
      from closed[OF y(1)] obtain z where "z \<in> L"
        "(case vars y of None \<Rightarrow> Name y | Some v \<Rightarrow> v) = Name z"
        using y(1) by (auto split: option.splits)
      moreover have "chase vars (case vars y of None \<Rightarrow> Name y | Some v \<Rightarrow> v) = Some r"
        using step a unfolding y(2) by simp
      ultimately have "chase vars (Name z) = Some r" by simp
      with IH \<open>z \<in> L\<close> show False by blast
    qed
  qed
  with x show ?thesis by blast
qed

lemma create_var_diverges:
  assumes "variables s x = None \<or> variables s x = Some (Name x)"
  shows "operation (Operation CREATE_VAR (PyStr var)) (s\<lparr>stack := rest @ [Name x]\<rparr>) = Diverges"
proof -
  have "chase_name (variables s) (Name x) = None"
    by (rule chase_name_loops[where L = "{x}"]) (use assms in auto)
  then show ?thesis
    by (simp add: operation_simple_def py_pop_def)
qed

text \<open>
  C5. The code at the failing inputs: \<^verbatim>\<open>CREATE_VAR\<close> on a name that is unbound, and on a
  name that a function call has bound to itself, does not return.
\<close>

theorem create_var_unbound_name_never_returns:
  "run_body [Operation PUSH_VALUE (Name ''x''), Operation CREATE_VAR (PyStr ''y'')] interp0
     = Diverges \<and>
   run_body
     [Operation PUSH_VALUE (Name ''a''),
      Operation CALL_FUNCTION
        (CompiledFunction [''a''] 0
           [Operation PUSH_VALUE (Name ''a''), Operation CREATE_VAR (PyStr ''b'')])] interp0
     = Diverges"
proof -
  have 1: "operation (Operation CREATE_VAR (PyStr ''y'')) (interp0\<lparr>stack := [] @ [Name ''x'']\<rparr>)
      = Diverges"
    by (rule create_var_diverges) (simp add: interp0_def)
  let ?callee = "interp0\<lparr>stack := [], variables := [''a'' \<mapsto> Name ''a''],
                          function_outputs := []\<rparr>"
  have 2: "operation (Operation CREATE_VAR (PyStr ''b'')) (?callee\<lparr>stack := [] @ [Name ''a'']\<rparr>)
      = Diverges"
    by (rule create_var_diverges) simp
  show ?thesis
    using 1 2 by (simp add: operation_simple_def interp0_def get_args_def)
qed

subsection \<open>List literals\<close>

lemma eval_elements_value:
  "eval_elements es acc s = Returns (acc @ map list_literal_value es, s)"
proof (rule interp_induct(4)
    [where ?P1.0 = "\<lambda>op s.
        (\<forall>t es. op = Operation t (ListLiteral es) \<longrightarrow>
           operation op s = Returns (s\<lparr>stack := stack s @ [PyList (map list_literal_value es)]\<rparr>)) \<and>
        (\<forall>e. op = Operation PUSH_VALUE e \<longrightarrow>
           operation op s = Returns (s\<lparr>stack := stack s @ [list_literal_value e]\<rparr>))"
      and ?P2.0 = "\<lambda>t d s. True" and ?P3.0 = "\<lambda>ops s. True"
      and ?P4.0 = "\<lambda>es acc s. eval_elements es acc s = Returns (acc @ map list_literal_value es, s)"
      and ?P5.0 = "\<lambda>n i ou b a s. True"])
  fix op_type op_data s
  assume lit: "\<And>x10. op_data = ListLiteral x10 \<Longrightarrow>
     eval_elements x10 [] s = Returns ([] @ map list_literal_value x10, s)"
  show "(\<forall>t es. Operation op_type op_data = Operation t (ListLiteral es) \<longrightarrow>
           operation (Operation op_type op_data) s
             = Returns (s\<lparr>stack := stack s @ [PyList (map list_literal_value es)]\<rparr>)) \<and>
        (\<forall>e. Operation op_type op_data = Operation PUSH_VALUE e \<longrightarrow>
           operation (Operation op_type op_data) s
             = Returns (s\<lparr>stack := stack s @ [list_literal_value e]\<rparr>))"
    using lit by (cases op_data) (auto simp: operation_simple_def)
next
  fix e rest evaluated_elements s
  assume e: "(\<forall>t es. Operation PUSH_VALUE e = Operation t (ListLiteral es) \<longrightarrow>
           operation (Operation PUSH_VALUE e) s
             = Returns (s\<lparr>stack := stack s @ [PyList (map list_literal_value es)]\<rparr>)) \<and>
        (\<forall>e'. Operation PUSH_VALUE e = Operation PUSH_VALUE e' \<longrightarrow>
           operation (Operation PUSH_VALUE e) s
             = Returns (s\<lparr>stack := stack s @ [list_literal_value e']\<rparr>))"
    and rest: "\<And>x xa xb. eval_elements rest (evaluated_elements @ [xa]) (x\<lparr>stack := xb\<rparr>)
        = Returns ((evaluated_elements @ [xa]) @ map list_literal_value rest, x\<lparr>stack := xb\<rparr>)"
  from e have "operation (Operation PUSH_VALUE e) s
             = Returns (s\<lparr>stack := stack s @ [list_literal_value e]\<rparr>)" by blast
  moreover have "eval_elements rest (evaluated_elements @ [list_literal_value e]) (s\<lparr>stack := stack s\<rparr>)
        = Returns ((evaluated_elements @ [list_literal_value e]) @ map list_literal_value rest,
            s\<lparr>stack := stack s\<rparr>)"
    by (rule rest)
  ultimately show "eval_elements (e # rest) evaluated_elements s
      = Returns (evaluated_elements @ map list_literal_value (e # rest), s)"
    by (simp add: py_pop_def)
qed simp_all

text \<open>
  C9. The code at the failing input: \<^verbatim>\<open>CREATE_VAR\<close> whose payload is a list literal does
  not reach the branch of its kind, where the payload would fail the assertion that a
  variable name is a string (as an integer payload does); the test for a list literal
  comes first, so the literal is evaluated and pushed as \<^verbatim>\<open>PUSH_VALUE\<close> would push it,
  and no variable is created.
\<close>

theorem create_var_evaluates_list_literal:
  "operation (Operation CREATE_VAR (ListLiteral [PyInt 1, ListLiteral [Name ''a'']])) interp0
     = Returns (interp0\<lparr>stack := [PyList [PyInt 1, PyList [Name ''a'']]]\<rparr>) \<and>
   operation (Operation PUSH_VALUE (ListLiteral [PyInt 1, ListLiteral [Name ''a'']])) interp0
     = Returns (interp0\<lparr>stack := [PyList [PyInt 1, PyList [Name ''a'']]]\<rparr>) \<and>
   operation (Operation CREATE_VAR (PyInt 3)) interp0 = Raises AssertionError"
  by (simp add: eval_elements_value operation_kind_simple operation_simple_def interp0_def)

subsection \<open>The backend only grows\<close>

lemma grows_refl [simp]: "grows b b"
  by (simp add: grows_def)

lemma grows_trans: "grows a b \<Longrightarrow> grows b c \<Longrightarrow> grows a c"
  by (auto simp: grows_def intro: prefix_order.trans)

lemma frame_refl [simp]: "frame s s"
  by (simp add: frame_def)

lemma frame_trans: "frame a b \<Longrightarrow> frame b c \<Longrightarrow> frame a c"
  by (auto simp: frame_def intro: grows_trans map_le_trans)

lemma grows_log [simp]: "grows b (b\<lparr>bk_log := bk_log b @ evs\<rparr>)"
  by (simp add: grows_def)


lemma grows_tree_idname:
  "grows b b' \<Longrightarrow> t < length (bk_trees b) \<Longrightarrow> tree_idname b' t = tree_idname b t"
  by (auto simp: grows_def tree_idname_def prefix_def nth_append)

lemma and_then_Returns:
  "and_then m f = Returns y \<longleftrightarrow> (\<exists>x. m = Returns x \<and> f x = Returns y)"
  by (cases m) simp_all

lemma grows_links_new [simp]: "grows b (links_new t a c b)"
  by (simp add: links_new_def)

lemma grows_set_default_value [simp]: "grows b (set_default_value k v b)"
  by (simp add: set_default_value_def)

lemma grows_node_setattr [simp]: "grows b (node_setattr n name v b)"
  by (simp add: node_setattr_def)

lemma grows_node_set_label [simp]: "grows b (node_set_label n v b)"
  by (simp add: node_set_label_def)

lemma grows_nodes_new: "nodes_new t type b = Returns (n, b') \<Longrightarrow> grows b b'"
  by (auto simp: nodes_new_def grows_def Let_def split: option.splits)

lemma only_bpy_refl [simp]: "only_bpy s s"
  unfolding only_bpy_def by (rule exI[of _ "bpy s"]) simp

lemma only_bpy_trans:
  assumes "only_bpy a b" and "only_bpy b c"
  shows "only_bpy a c"
proof -
  from assms(1) obtain b1 where b1: "b = a\<lparr>bpy := b1\<rparr>" "grows (bpy a) b1"
    by (auto simp: only_bpy_def)
  from assms(2) obtain b2 where b2: "c = b\<lparr>bpy := b2\<rparr>" "grows (bpy b) b2"
    by (auto simp: only_bpy_def)
  have "c = a\<lparr>bpy := b2\<rparr>" using b1 b2 by simp
  moreover have "grows (bpy a) b2" using b1 b2 by (auto intro: grows_trans)
  ultimately show ?thesis unfolding only_bpy_def by blast
qed

lemma only_bpy_update: "grows (bpy s) b' \<Longrightarrow> only_bpy s (s\<lparr>bpy := b'\<rparr>)"
  by (auto simp: only_bpy_def)

lemma link_geo_inputs_only_bpy:
  "link_geo_inputs elems target s = Returns s' \<Longrightarrow> only_bpy s s'"
proof (induction elems arbitrary: s)
  case Nil
  then show ?case by simp
next
  case (Cons geo_input rest)
  show ?case
  proof (cases "resolve_geo_input s geo_input")
    case (NodeSocket k)
    with Cons.prems obtain t where t: "target (bpy s) = Returns t"
      and r: "link_geo_inputs rest target (s\<lparr>bpy := links_new (tree s) k t (bpy s)\<rparr>) = Returns s'"
      by (auto simp: and_then_Returns)
    have "only_bpy s (s\<lparr>bpy := links_new (tree s) k t (bpy s)\<rparr>)"
      by (rule only_bpy_update) simp
    then show ?thesis using Cons.IH[OF r] by (rule only_bpy_trans)
  qed (use Cons in simp_all)
qed

lemma link_if_socket_only_bpy [simp]: "only_bpy s (link_if_socket v target s)"
  by (cases v) (simp_all add: link_if_socket_def only_bpy_update)

lemma connect_input_only_bpy:
  assumes "connect_input node input_index arg s = Returns s'"
  shows "only_bpy s s'"
proof (cases arg)
  case (PyList elems)
  show ?thesis
  proof (cases "node_bl_idname (bpy s) node = ''GeometryNodeJoinGeometry''")
    case True
    with assms PyList show ?thesis
      by (simp add: connect_input_def link_geo_inputs_only_bpy)
  next
    case False
    with assms PyList obtain input_socket where
      r: "(if is_geometry_socket (bpy s) input_socket
           then if is_multi_input (bpy s) input_socket
             then link_geo_inputs elems (\<lambda>b. Returns input_socket) s
             else and_then (py_index elems 0)
                    (\<lambda>first. Returns (link_if_socket first input_socket s))
           else Returns s) = Returns s'"
      by (auto simp: connect_input_def and_then_Returns)
    show ?thesis
    proof (cases "is_geometry_socket (bpy s) input_socket")
      case g: True
      show ?thesis
      proof (cases "is_multi_input (bpy s) input_socket")
        case True
        with r g show ?thesis by (simp add: link_geo_inputs_only_bpy)
      next
        case False
        with r g show ?thesis by (auto simp: and_then_Returns)
      qed
    next
      case False
      with r show ?thesis by auto
    qed
  qed
qed (use assms in \<open>auto simp: connect_input_def and_then_Returns only_bpy_update split: if_splits\<close>)

lemma connect_inputs_only_bpy:
  "connect_inputs node args inputs i s = Returns s' \<Longrightarrow> only_bpy s s'"
proof (induction inputs arbitrary: i s)
  case Nil
  then show ?case by simp
next
  case (Cons input_index rest)
  from Cons.prems obtain arg s1 where
    "connect_input node input_index arg s = Returns s1"
    "connect_inputs node args rest (Suc i) s1 = Returns s'"
    by (auto simp: and_then_Returns)
  then show ?case
    using Cons.IH[of "Suc i" s1] connect_input_only_bpy[of node input_index arg s s1]
    by (auto intro: only_bpy_trans)
qed

lemma grows_fold_setattr:
  "grows b (fold (\<lambda>(name, v). node_setattr node name v) props b)"
proof (induction props arbitrary: b)
  case Nil
  show ?case by simp
next
  case (Cons p props)
  obtain name v where p: "p = (name, v)" by (cases p)
  have "grows b (node_setattr node name v b)" by simp
  then have "grows b (fold (\<lambda>(name, v). node_setattr node name v) props
      (node_setattr node name v b))"
    using Cons[of "node_setattr node name v b"] by (rule grows_trans)
  then show ?case using p by simp
qed

lemma add_builtin_only_bpy:
  assumes "add_builtin key props inputs args s = Returns (node, s')"
  shows "only_bpy s s'"
proof -
  from assms obtain b where b: "nodes_new (tree s) key (bpy s) = Returns (node, b)"
    and c: "connect_inputs node args inputs 0
               (s\<lparr>bpy := fold (\<lambda>(name, v). node_setattr node name v) props b\<rparr>) = Returns s'"
    by (auto simp: add_builtin_def and_then_Returns)
  have "grows (bpy s) (fold (\<lambda>(name, v). node_setattr node name v) props b)"
    using grows_nodes_new[OF b] grows_fold_setattr by (rule grows_trans)
  then have "only_bpy s (s\<lparr>bpy := fold (\<lambda>(name, v). node_setattr node name v) props b\<rparr>)"
    by (rule only_bpy_update)
  then show ?thesis using connect_inputs_only_bpy[OF c] by (rule only_bpy_trans)
qed

lemma frame_only_bpy: "only_bpy s s' \<Longrightarrow> frame s s'"
  by (auto simp: only_bpy_def frame_def)

lemma case_PyList_Returns:
  "(case v of PyList elems \<Rightarrow> f elems | _ \<Rightarrow> Raises e) = Returns y
     \<longleftrightarrow> (\<exists>elems. v = PyList elems \<and> f elems = Returns y)"
  by (cases v) auto

lemma operation_simple_frame:
  assumes "operation_simple op_type op_data s = Returns s'"
  shows "frame s s'"
proof (cases op_type)
  case CALL_BUILTIN
  with assms obtain key props inputs outputs where d: "op_data = NodeInstance key props inputs outputs"
    by (cases op_data) (simp_all add: operation_simple_def)
  obtain args stk where g: "get_args (stack s) (length inputs) = (args, stk)"
    by (cases "get_args (stack s) (length inputs)")
  from assms CALL_BUILTIN d g obtain node s1 where
    a: "add_builtin key props inputs args (s\<lparr>stack := stk\<rparr>) = Returns (node, s1)"
    and r: "(if length outputs = 1
             then and_then (node_socket (bpy s1) node OUTPUT (hd outputs))
                    (\<lambda>socket.
                       Returns (s1\<lparr>socket_table := (socket_table s1)(socket \<mapsto> socket),
                                  stack := stack s1 @ [NodeSocket socket],
                                  nodes := nodes s1 @ [node]\<rparr>))
             else if length outputs > 1
             then and_then (output_sockets (bpy s1) node (rev outputs))
                    (\<lambda>ks. Returns (s1\<lparr>stack := stack s1 @ [PyList ks],
                                      nodes := nodes s1 @ [node]\<rparr>))
             else Returns (s1\<lparr>nodes := nodes s1 @ [node]\<rparr>)) = Returns s'"
    by (auto simp: operation_simple_def and_then_Returns)
  from add_builtin_only_bpy[OF a] have "frame (s\<lparr>stack := stk\<rparr>) s1"
    by (rule frame_only_bpy)
  then have "frame s s1" by (simp add: frame_def)
  moreover from r have "frame s1 s'"
    by (auto simp: frame_def and_then_Returns split: if_splits)
  ultimately show ?thesis by (rule frame_trans)
next
  case CREATE_VAR
  with assms show ?thesis
    by (cases op_data)
      (auto simp: operation_simple_def frame_def and_then_Returns split: option.splits if_splits)
next
  case GET_VAR
  with assms show ?thesis
    by (cases op_data)
      (auto simp: operation_simple_def frame_def split: option.splits)
next
  case GET_OUTPUT
  with assms show ?thesis
    by (auto simp: operation_simple_def frame_def and_then_Returns case_PyList_Returns
        split: option.splits)
next
  case SET_OUTPUT
  with assms obtain k v where "s' = s\<lparr>bpy := set_default_value k v (bpy s)\<rparr>"
    by (cases op_data)
      (auto simp: operation_simple_def and_then_Returns split: list.splits)
  then show ?thesis by (simp add: frame_def)
next
  case SET_FUNCTION_OUT
  with assms show ?thesis
    by (auto simp: operation_simple_def frame_def and_then_Returns py_setitem_def
        split: option.splits if_splits)
next
  case SPLIT_STRUCT
  with assms show ?thesis
    by (auto simp: operation_simple_def frame_def and_then_Returns case_PyList_Returns)
next
  case RENAME_NODE
  with assms show ?thesis
    by (auto simp: operation_simple_def frame_def and_then_Returns)
next
  case PACK_LIST
  with assms show ?thesis
    by (auto simp: operation_simple_def frame_def and_then_Returns split: option.splits)
qed (use assms in \<open>auto simp: operation_simple_def frame_def\<close>)

lemma function_return_Returns:
  assumes "function_return s outer_stack s1 = Returns s'"
  shows "s' = s1\<lparr>stack := outer_stack @ pushed_outputs (function_outputs s1),
                 function_outputs := function_outputs s, variables := variables s\<rparr>"
  using assms
  by (auto simp: function_return_def pushed_outputs_def Let_def split: if_splits)

lemma connect_group_outputs_logged:
  "connect_group_outputs node_tree group_output outs index b = Returns b' \<Longrightarrow>
   \<exists>evs. b' = b\<lparr>bk_log := bk_log b @ evs\<rparr>"
proof (induction outs arbitrary: index b)
  case Nil
  then have "b' = b\<lparr>bk_log := bk_log b @ []\<rparr>" by simp
  then show ?case by blast
next
  case (Cons foutput rest)
  have step: "\<exists>evs. b' = b\<lparr>bk_log := bk_log b @ evs\<rparr>"
    if "connect_group_outputs node_tree group_output rest (Suc index)
          (b\<lparr>bk_log := bk_log b @ [e]\<rparr>) = Returns b'" for e
  proof -
    from Cons.IH[OF that] obtain evs where
      "b' = b\<lparr>bk_log := bk_log b @ [e]\<rparr>\<lparr>bk_log := bk_log (b\<lparr>bk_log := bk_log b @ [e]\<rparr>) @ evs\<rparr>"
      by blast
    then have "b' = b\<lparr>bk_log := bk_log b @ (e # evs)\<rparr>" by simp
    then show ?thesis by blast
  qed
  from Cons.prems show ?case
    by (cases foutput)
      (auto simp: and_then_Returns links_new_def set_default_value_def
        dest: step Cons.IH)
qed

lemma connect_args_logged:
  "connect_args t node args i b = Returns b' \<Longrightarrow>
   \<exists>evs. b' = b\<lparr>bk_log := bk_log b @ evs\<rparr> \<and> list_all is_wiring evs"
proof (induction args arbitrary: i b)
  case Nil
  then have "b' = b\<lparr>bk_log := bk_log b @ []\<rparr> \<and> list_all is_wiring []" by simp
  then show ?case by blast
next
  case (Cons arg rest)
  have step: "\<exists>evs. b' = b\<lparr>bk_log := bk_log b @ evs\<rparr> \<and> list_all is_wiring evs"
    if "connect_args t node rest (Suc i) (b\<lparr>bk_log := bk_log b @ [e]\<rparr>) = Returns b'"
      and "is_wiring e" for e
  proof -
    from Cons.IH[OF that(1)] obtain evs where
      "b' = b\<lparr>bk_log := bk_log b @ [e]\<rparr>\<lparr>bk_log := bk_log (b\<lparr>bk_log := bk_log b @ [e]\<rparr>) @ evs\<rparr>"
      "list_all is_wiring evs"
      by blast
    then have "b' = b\<lparr>bk_log := bk_log b @ (e # evs)\<rparr> \<and> list_all is_wiring (e # evs)"
      using that(2) by simp
    then show ?thesis by blast
  qed
  from Cons.prems show ?case
    by (cases arg)
      (auto simp: and_then_Returns links_new_def set_default_value_def
        dest: Cons.IH step)
qed

lemma declare_ports_spec:
  "declare_ports t d ports b = Returns b' \<Longrightarrow> t < length (bk_trees b) \<Longrightarrow>
   bk_types b' = bk_types b \<and> bk_nodes b' = bk_nodes b \<and> prefix (bk_log b) (bk_log b') \<and>
   length (bk_trees b') = length (bk_trees b) \<and>
   (\<forall>u. u \<noteq> t \<longrightarrow> bk_trees b' ! u = bk_trees b ! u) \<and>
   length (tree_ports b' t d) = length (tree_ports b t d) + length ports \<and>
   (\<forall>d'. d' \<noteq> d \<longrightarrow> tree_ports b' t d' = tree_ports b t d')"
proof (induction ports arbitrary: b)
  case Nil
  then show ?case by simp
next
  case (Cons p ports)
  obtain name dtype v where p: "p = (name, dtype, v)" by (cases p)
  from Cons.prems(1) p obtain socket_type where
    st: "data_type_to_socket_type dtype = Returns socket_type"
    and r: "declare_ports t d ports
              (if v \<noteq> PyNone
               then interface_set_default t d (fst (interface_new_socket t name d socket_type b)) v
                      (snd (interface_new_socket t name d socket_type b))
               else snd (interface_new_socket t name d socket_type b)) = Returns b'"
    by (auto simp: and_then_Returns case_prod_beta)
  let ?b1 = "snd (interface_new_socket t name d socket_type b)"
  let ?b2 = "if v \<noteq> PyNone
             then interface_set_default t d (fst (interface_new_socket t name d socket_type b)) v ?b1
             else ?b1"
  have b2: "bk_types ?b2 = bk_types b" "bk_nodes ?b2 = bk_nodes b"
    "prefix (bk_log b) (bk_log ?b2)" "length (bk_trees ?b2) = length (bk_trees b)"
    "\<And>u. u \<noteq> t \<Longrightarrow> bk_trees ?b2 ! u = bk_trees b ! u"
    "length (tree_ports ?b2 t d) = Suc (length (tree_ports b t d))"
    "\<And>d'. d' \<noteq> d \<Longrightarrow> tree_ports ?b2 t d' = tree_ports b t d'"
    using Cons.prems(2)
    by (cases d; auto simp: interface_new_socket_def interface_set_default_def Let_def
        tree_ports_def split: direction.splits)+
  from Cons.IH[OF r] b2(4) Cons.prems(2)
  have IH: "bk_types b' = bk_types ?b2 \<and> bk_nodes b' = bk_nodes ?b2 \<and>
     prefix (bk_log ?b2) (bk_log b') \<and> length (bk_trees b') = length (bk_trees ?b2) \<and>
     (\<forall>u. u \<noteq> t \<longrightarrow> bk_trees b' ! u = bk_trees ?b2 ! u) \<and>
     length (tree_ports b' t d) = length (tree_ports ?b2 t d) + length ports \<and>
     (\<forall>d'. d' \<noteq> d \<longrightarrow> tree_ports b' t d' = tree_ports ?b2 t d')"
    by simp
  show ?case
    using IH b2 by (auto intro: prefix_order.trans)
qed

lemma prefix_pointwise:
  assumes "length xs \<le> length ys" and "\<And>u. u < length xs \<Longrightarrow> ys ! u = xs ! u"
  shows "prefix xs ys"
proof -
  have "take (length xs) ys = xs"
    using assms by (intro nth_equalityI) auto
  then have "ys = xs @ drop (length xs) ys"
    by (metis append_take_drop_id)
  then show ?thesis unfolding prefix_def by blast
qed

lemma nodes_new_spec:
  assumes "nodes_new t type b = Returns (n, b')"
  shows "n = length (bk_nodes b)" and "bk_trees b' = bk_trees b" and "bk_types b' = bk_types b"
    and "bk_log b' = bk_log b @ [NewNode t type]" and "length (bk_nodes b') = Suc (length (bk_nodes b))"
    and "\<And>u d. tree_ports b' u d = tree_ports b u d"
proof -
  from assms obtain ins outs where
    b': "b' = b\<lparr>bk_nodes := bk_nodes b @
                 [\<lparr>n_tree = t, n_type = type, n_inputs = ins, n_outputs = outs\<rparr>],
               bk_log := bk_log b @ [NewNode t type]\<rparr>"
    and n: "n = length (bk_nodes b)"
    by (auto simp: nodes_new_def Let_def split: option.splits)
  show "n = length (bk_nodes b)" by (rule n)
  show "bk_trees b' = bk_trees b" "bk_types b' = bk_types b"
    "bk_log b' = bk_log b @ [NewNode t type]" "length (bk_nodes b') = Suc (length (bk_nodes b))"
    by (simp_all add: b')
  show "tree_ports b' u d = tree_ports b u d" for u d
    by (cases d) (simp_all add: b' tree_ports_def)
qed

lemma create_inner_tree_spec:
  assumes "create_inner_tree name inputs outputs s = Returns (t, gi, go, b4)"
  shows "t = length (bk_trees (bpy s))" and "grows (bpy s) b4"
    and "length (bk_trees b4) = Suc (length (bk_trees (bpy s)))"
    and "length (tree_ports b4 t OUTPUT) = length outputs"
    and "length (tree_ports b4 t INPUT) = length inputs"
proof -
  let ?old = "bpy s"
  let ?fresh = "snd (node_groups_new name (tree_idname ?old (tree s)) ?old)"
  have t0: "fst (node_groups_new name (tree_idname ?old (tree s)) ?old) = length (bk_trees ?old)"
    by (simp add: node_groups_new_def)
  from assms obtain b1 b2 b3 where
    t: "t = length (bk_trees ?old)"
    and d1: "declare_ports t INPUT inputs ?fresh = Returns b1"
    and d2: "declare_ports t OUTPUT outputs b1 = Returns b2"
    and n1: "nodes_new t ''NodeGroupInput'' b2 = Returns (gi, b3)"
    and n2: "nodes_new t ''NodeGroupOutput'' b3 = Returns (go, b4)"
    by (auto simp: create_inner_tree_def and_then_Returns case_prod_beta t0 node_groups_new_def)
  have b0: "bk_types ?fresh = bk_types ?old" "bk_nodes ?fresh = bk_nodes ?old"
    "prefix (bk_log ?old) (bk_log ?fresh)" "length (bk_trees ?fresh) = Suc (length (bk_trees ?old))"
    "\<And>u. u < t \<Longrightarrow> bk_trees ?fresh ! u = bk_trees ?old ! u"
    "tree_ports ?fresh t INPUT = []" "tree_ports ?fresh t OUTPUT = []"
    by (auto simp: node_groups_new_def t nth_append tree_ports_def)
  have lt0: "t < length (bk_trees ?fresh)" using b0(4) t by simp
  note s1 = declare_ports_spec[OF d1 lt0]
  have lt1: "t < length (bk_trees b1)" using s1 lt0 by simp
  note s2 = declare_ports_spec[OF d2 lt1]
  note m1 = nodes_new_spec[OF n1]
  note m2 = nodes_new_spec[OF n2]
  show "t = length (bk_trees (bpy s))" by (rule t)
  show "length (bk_trees b4) = Suc (length (bk_trees (bpy s)))"
    using s1 s2 m1(2) m2(2) b0(4) by simp
  show "length (tree_ports b4 t OUTPUT) = length outputs"
    using s1 s2 m1(6) m2(6) b0(7) by simp
  show "length (tree_ports b4 t INPUT) = length inputs"
    using s1 s2 m1(6) m2(6) b0(6) by simp
  have "prefix (bk_trees ?old) (bk_trees b4)"
  proof (rule prefix_pointwise)
    show "length (bk_trees ?old) \<le> length (bk_trees b4)"
      using s1 s2 m1(2) m2(2) b0(4) by simp
    fix u assume "u < length (bk_trees ?old)"
    then have "u < t" "u \<noteq> t" using t by simp_all
    then show "bk_trees b4 ! u = bk_trees ?old ! u"
      using s1 s2 m1(2) m2(2) b0(5) by simp
  qed
  moreover have "prefix (bk_nodes ?old) (bk_nodes b4)"
    using grows_nodes_new[OF n1] grows_nodes_new[OF n2] s1 s2 b0(2)
    by (auto simp: grows_def intro: prefix_order.trans)
  moreover have "prefix (bk_log ?old) (bk_log b4)"
    using s1 s2 m1(4) m2(4) b0(3)
    by (auto intro: prefix_order.trans)
  moreover have "bk_types b4 = bk_types ?old"
    using s1 s2 m1(3) m2(3) b0(1) by simp
  ultimately show "grows (bpy s) b4" by (simp add: grows_def)
qed

lemma instantiate_group_spec:
  assumes "instantiate_group t args s = Returns s'"
  shows "\<exists>b' evs. s' = s\<lparr>bpy := b', nodes := nodes s @ [length (bk_nodes (bpy s))],
                         stack := stack s @ group_pushed (length (bk_nodes (bpy s)))
                                    (length (tree_ports (bpy s) t OUTPUT))\<rparr> \<and>
           grows (bpy s) b' \<and> bk_trees b' = bk_trees (bpy s) \<and>
           bk_log b' = bk_log (bpy s) @
             [NewNode (tree s) (group_node_type s), SetNodeTree (length (bk_nodes (bpy s))) t] @ evs \<and>
           list_all is_wiring evs"
proof -
  let ?g = "group_node_type s"
  let ?n = "length (bk_nodes (bpy s))"
  from assms obtain node b where n: "nodes_new (tree s) ?g (bpy s) = Returns (node, b)"
    and r: "and_then (connect_args (tree s) node args 0 (node_set_tree node t b))
                (\<lambda>b1.
                   let s1 = s\<lparr>bpy := b1, nodes := nodes s @ [node]\<rparr>;
                       n = length (node_ports b1 node OUTPUT)
                   in if n = 1
                      then Returns (s1\<lparr>stack := stack s1 @ [NodeSocket (SocketOf node OUTPUT 0)]\<rparr>)
                      else if n > 1
                      then Returns (s1\<lparr>stack := stack s1 @
                             [PyList (map (\<lambda>i. NodeSocket (SocketOf node OUTPUT i)) (rev [0..<n]))]\<rparr>)
                      else Returns s1) = Returns s'"
    by (auto simp: instantiate_group_def group_node_type_def Let_def and_then_Returns
        simp del: and_then.simps)
  note m = nodes_new_spec[OF n]
  from r obtain b1 where c: "connect_args (tree s) node args 0 (node_set_tree node t b) = Returns b1"
    and s': "s' = s\<lparr>bpy := b1, nodes := nodes s @ [node],
                   stack := stack s @ group_pushed node (length (node_ports b1 node OUTPUT))\<rparr>"
    by (auto simp: and_then_Returns Let_def group_pushed_def split: if_splits)
  from connect_args_logged[OF c] obtain evs where
    b1: "b1 = (node_set_tree node t b)\<lparr>bk_log := bk_log (node_set_tree node t b) @ evs\<rparr>"
    and w: "list_all is_wiring evs" by blast
  have node: "node = ?n" by (rule m(1))
  have ports: "node_ports b1 node OUTPUT = tree_ports (bpy s) t OUTPUT"
    using m(5) m(6) by (simp add: b1 node_set_tree_def node_ports_def node)
  have log: "bk_log b1 = bk_log (bpy s) @ [NewNode (tree s) ?g, SetNodeTree ?n t] @ evs"
    using m(4) by (simp add: b1 node_set_tree_def node)
  have trees: "bk_trees b1 = bk_trees (bpy s)"
    using m(2) by (simp add: b1 node_set_tree_def)
  have "prefix (bk_nodes (bpy s)) (bk_nodes b1)"
  proof (rule prefix_pointwise)
    show "length (bk_nodes (bpy s)) \<le> length (bk_nodes b1)"
      using m(5) by (simp add: b1 node_set_tree_def)
    fix u assume u: "u < length (bk_nodes (bpy s))"
    from grows_nodes_new[OF n] have "prefix (bk_nodes (bpy s)) (bk_nodes b)"
      by (simp add: grows_def)
    then have "bk_nodes b ! u = bk_nodes (bpy s) ! u"
      using u by (auto simp: prefix_def nth_append)
    then show "bk_nodes b1 ! u = bk_nodes (bpy s) ! u"
      using u m(5) by (simp add: b1 node_set_tree_def node)
  qed
  moreover have "bk_types b1 = bk_types (bpy s)"
    using m(3) by (simp add: b1 node_set_tree_def)
  ultimately have g: "grows (bpy s) b1"
    by (simp add: grows_def trees log)
  show ?thesis
    using s' g trees log w ports node by auto
qed

subsection \<open>The two calls that run a body\<close>

declare operation_kind.simps [simp del] execute_node_group.simps [simp del]

lemma and_then_assoc:
  "and_then (and_then m f) g = and_then m (\<lambda>x. and_then (f x) g)"
  by (cases m) simp_all

lemma operation_kind_call_function:
  "operation_kind CALL_FUNCTION (CompiledFunction inputs num_outputs body) s =
     and_then
       (run_body body
          (s\<lparr>variables := fold (\<lambda>(name, arg) m. m(name \<mapsto> arg))
                            (zip inputs (fst (get_args (stack s) (length inputs)))) Map.empty,
             function_outputs := replicate (nat num_outputs) PyNone,
             stack := []\<rparr>))
       (function_return s (snd (get_args (stack s) (length inputs))))"
  by (simp add: operation_kind.simps case_prod_beta)

lemma operation_kind_call_nodegroup:
  "operation_kind CALL_NODEGROUP (CompiledNodeGroup name inputs outputs body) s =
     execute_node_group name inputs outputs body (fst (get_args (stack s) (length inputs)))
       (s\<lparr>stack := snd (get_args (stack s) (length inputs))\<rparr>)"
  by (simp add: operation_kind.simps case_prod_beta)

lemma call_function_Returns:
  assumes "operation_kind CALL_FUNCTION op_data s = Returns r"
  obtains inputs num_outputs body where "op_data = CompiledFunction inputs num_outputs body"
  using assms by (cases op_data) (simp_all add: operation_kind.simps)

lemma call_nodegroup_Returns:
  assumes "operation_kind CALL_NODEGROUP op_data s = Returns r"
  obtains name inputs outputs body where "op_data = CompiledNodeGroup name inputs outputs body"
  using assms by (cases op_data) (simp_all add: operation_kind.simps)

lemma execute_node_group_cached:
  "node_group_trees s name = Some node_tree \<Longrightarrow>
   execute_node_group name inputs outputs body args s = instantiate_group node_tree args s"
  by (simp add: execute_node_group.simps)

lemma execute_node_group_uncached:
  "node_group_trees s name = None \<Longrightarrow>
   execute_node_group name inputs outputs body args s =
     and_then (create_inner_tree name inputs outputs s)
       (\<lambda>(node_tree, group_input, group_output, b).
          and_then
            (run_body body
               (s\<lparr>bpy := b, tree := node_tree,
                  variables := gateway_variables b group_input,
                  function_outputs := replicate (length outputs) PyNone,
                  stack := []\<rparr>))
            (\<lambda>s1.
               and_then
                 (connect_group_outputs node_tree group_output (function_outputs s1) 0 (bpy s1))
                 (\<lambda>b1.
                    instantiate_group node_tree args
                      (s1\<lparr>bpy := b1, stack := stack s,
                          function_outputs := function_outputs s,
                          variables := variables s, tree := tree s,
                          node_group_trees := (node_group_trees s1)(name \<mapsto> node_tree)\<rparr>))))"
  by (simp add: execute_node_group.simps and_then_assoc case_prod_unfold)

lemma execute_node_group_first:
  assumes none: "node_group_trees s name = None"
    and ret: "execute_node_group name inputs outputs body args s = Returns s'"
  obtains node_tree group_input group_output b s1 b1 where
    "create_inner_tree name inputs outputs s = Returns (node_tree, group_input, group_output, b)"
    "run_body body
       (s\<lparr>bpy := b, tree := node_tree,
          variables := gateway_variables b group_input,
          function_outputs := replicate (length outputs) PyNone,
          stack := []\<rparr>) = Returns s1"
    "connect_group_outputs node_tree group_output (function_outputs s1) 0 (bpy s1) = Returns b1"
    "instantiate_group node_tree args
       (s1\<lparr>bpy := b1, stack := stack s, function_outputs := function_outputs s,
           variables := variables s, tree := tree s,
           node_group_trees := (node_group_trees s1)(name \<mapsto> node_tree)\<rparr>) = Returns s'"
proof -
  note eq = ret[unfolded execute_node_group_uncached[OF none]]
  obtain x where c0: "create_inner_tree name inputs outputs s = Returns x"
    using eq by (cases "create_inner_tree name inputs outputs s") simp_all
  obtain node_tree group_input group_output b where x: "x = (node_tree, group_input, group_output, b)"
    by (cases x)
  let ?inner = "s\<lparr>bpy := b, tree := node_tree,
          variables := gateway_variables b group_input,
          function_outputs := replicate (length outputs) PyNone,
          stack := []\<rparr>"
  obtain s1 where r: "run_body body ?inner = Returns s1"
    using eq c0 x by (cases "run_body body ?inner") simp_all
  obtain b1 where o:
    "connect_group_outputs node_tree group_output (function_outputs s1) 0 (bpy s1) = Returns b1"
    using eq c0 x r
    by (cases "connect_group_outputs node_tree group_output (function_outputs s1) 0 (bpy s1)")
      simp_all
  show ?thesis
    using eq c0 x r o by (intro that[of node_tree group_input group_output b s1 b1]) simp_all
qed

subsection \<open>Every operation keeps the frame\<close>

lemma frame_all:
  shows "\<forall>r. operation op s1 = Returns r \<longrightarrow> frame s1 r"
    and "\<forall>r. operation_kind op_type op_data s2 = Returns r \<longrightarrow> frame s2 r"
    and "\<forall>r. run_body ops s3 = Returns r \<longrightarrow> frame s3 r"
    and "\<forall>acc' r. eval_elements es acc s4 = Returns (acc', r) \<longrightarrow> frame s4 r"
    and "\<forall>r. execute_node_group name inputs outputs body args s5 = Returns r \<longrightarrow> frame s5 r"
proof (induct op s1 and op_type op_data s2 and ops s3 and es acc s4
    and name inputs outputs body args s5 rule: interp_induct)
  case (1 op_type op_data s)
  show ?case
  proof (cases op_data)
    case (ListLiteral es)
    show ?thesis
    proof (intro allI impI)
      fix r assume "operation (Operation op_type op_data) s = Returns r"
      then obtain acc' s1 where e: "eval_elements es [] s = Returns (acc', s1)"
        and r: "r = s1\<lparr>stack := stack s1 @ [PyList acc']\<rparr>"
        unfolding ListLiteral by (auto simp: and_then_Returns)
      from 1(10)[OF ListLiteral] e have "frame s s1" by blast
      then show "frame s r" by (simp add: r frame_def)
    qed
  qed (use 1 in simp_all)
next
  case (2 op_type op_data s)
  show ?case
  proof (intro allI impI)
    fix r assume r: "operation_kind op_type op_data s = Returns r"
    consider (f) "op_type = CALL_FUNCTION" | (g) "op_type = CALL_NODEGROUP"
      | (o) "op_type \<noteq> CALL_FUNCTION" "op_type \<noteq> CALL_NODEGROUP" by blast
    then show "frame s r"
    proof cases
      case f
      with r obtain inputs num_outputs body where
        d: "op_data = CompiledFunction inputs num_outputs body"
        by (auto elim: call_function_Returns)
      let ?callee = "s\<lparr>variables := fold (\<lambda>(name, arg) m. m(name \<mapsto> arg))
                            (zip inputs (fst (get_args (stack s) (length inputs)))) Map.empty,
             function_outputs := replicate (nat num_outputs) PyNone,
             stack := []\<rparr>"
      from r f d obtain s1 where b: "run_body body ?callee = Returns s1"
        and fr: "function_return s (snd (get_args (stack s) (length inputs))) s1 = Returns r"
        by (auto simp: operation_kind_call_function and_then_Returns)
      have "frame ?callee s1"
        using "2.hyps"(1)[OF f d, of "fst (get_args (stack s) (length inputs))"
            "snd (get_args (stack s) (length inputs))"] b by simp
      then show ?thesis
        using function_return_Returns[OF fr] by (simp add: frame_def)
    next
      case g
      with r obtain name inputs outputs body where
        d: "op_data = CompiledNodeGroup name inputs outputs body"
        by (auto elim: call_nodegroup_Returns)
      have "frame (s\<lparr>stack := snd (get_args (stack s) (length inputs))\<rparr>) r"
        using "2.hyps"(2)[OF g d, of "fst (get_args (stack s) (length inputs))"
            "snd (get_args (stack s) (length inputs))"] r g d
        by (simp add: operation_kind_call_nodegroup)
      then show ?thesis by (simp add: frame_def)
    next
      case o
      with r show ?thesis
        by (simp add: operation_kind_simple operation_simple_frame)
    qed
  qed
next
  case (3 s)
  show ?case by simp
next
  case (4 op rest s)
  show ?case
  proof (intro allI impI)
    fix r assume "run_body (op # rest) s = Returns r"
    then obtain s1 where a: "operation op s = Returns s1" and b: "run_body rest s1 = Returns r"
      by (auto simp: and_then_Returns)
    from 4(1) a have "frame s s1" by blast
    moreover from 4(2)[of s1] b have "frame s1 r" by blast
    ultimately show "frame s r" by (rule frame_trans)
  qed
next
  case (5 evaluated_elements s)
  show ?case by simp
next
  case (6 e rest evaluated_elements s)
  show ?case
  proof (intro allI impI)
    fix acc' r assume "eval_elements (e # rest) evaluated_elements s = Returns (acc', r)"
    then obtain s1 v stk where a: "operation (Operation PUSH_VALUE e) s = Returns s1"
      and b: "eval_elements rest (evaluated_elements @ [v]) (s1\<lparr>stack := stk\<rparr>) = Returns (acc', r)"
      by (auto simp: and_then_Returns)
    from 6(1) a have "frame s s1" by blast
    then have "frame s (s1\<lparr>stack := stk\<rparr>)" by (simp add: frame_def)
    moreover from 6(2)[of v stk s1] b have "frame (s1\<lparr>stack := stk\<rparr>) r" by blast
    ultimately show "frame s r" by (rule frame_trans)
  qed
next
  case (7 name inputs outputs body args s)
  show ?case
  proof (intro allI impI)
    fix r assume r: "execute_node_group name inputs outputs body args s = Returns r"
    show "frame s r"
    proof (cases "node_group_trees s name")
      case (Some node_tree)
      with r have "instantiate_group node_tree args s = Returns r"
        by (simp add: execute_node_group_cached)
      from instantiate_group_spec[OF this] show ?thesis
        by (auto simp: frame_def)
    next
      case None
      from None r obtain node_tree group_input group_output b s1 b1
        where c: "create_inner_tree name inputs outputs s
                    = Returns (node_tree, group_input, group_output, b)"
          and body: "run_body body
             (s\<lparr>bpy := b, tree := node_tree,
                variables := gateway_variables b group_input,
                function_outputs := replicate (length outputs) PyNone,
                stack := []\<rparr>) = Returns s1"
          and o: "connect_group_outputs node_tree group_output (function_outputs s1) 0 (bpy s1)
                    = Returns b1"
          and i: "instantiate_group node_tree args
             (s1\<lparr>bpy := b1, stack := stack s, function_outputs := function_outputs s,
                 variables := variables s, tree := tree s,
                 node_group_trees := (node_group_trees s1)(name \<mapsto> node_tree)\<rparr>) = Returns r"
        by (rule execute_node_group_first)
      let ?inner = "s\<lparr>bpy := b, tree := node_tree,
                variables := gateway_variables b group_input,
                function_outputs := replicate (length outputs) PyNone,
                stack := []\<rparr>"
      let ?s2 = "s1\<lparr>bpy := b1, stack := stack s, function_outputs := function_outputs s,
                 variables := variables s, tree := tree s,
                 node_group_trees := (node_group_trees s1)(name \<mapsto> node_tree)\<rparr>"
      have f1: "frame ?inner s1"
        using 7[OF None, of b group_input node_tree] body by blast
      from connect_group_outputs_logged[OF o] have g1: "grows (bpy s1) b1" by auto
      have g0: "grows (bpy s) b" by (rule create_inner_tree_spec(2)[OF c])
      have "grows (bpy s) b1"
        using g0 f1 g1 by (auto simp: frame_def intro: grows_trans)
      moreover have "node_group_trees s \<subseteq>\<^sub>m (node_group_trees s1)(name \<mapsto> node_tree)"
        using f1 None by (auto simp: frame_def map_le_def dom_def)
      ultimately have "frame s ?s2" by (simp add: frame_def)
      moreover from instantiate_group_spec[OF i] have "frame ?s2 r"
        by (auto simp: frame_def)
      ultimately show ?thesis by (rule frame_trans)
    qed
  qed
qed

lemma get_args_take_drop:
  "snd (get_args stk n) = take (length stk - n) stk"
  "fst (get_args stk n) = drop (length stk - n) stk"
  by (simp_all add: get_args_def)

lemma operation_frame: "operation op s = Returns s' \<Longrightarrow> frame s s'"
  using frame_all(1) by blast

lemma run_body_frame: "run_body ops s = Returns s' \<Longrightarrow> frame s s'"
  using frame_all(3) by blast

lemma execute_node_group_frame:
  "execute_node_group name inputs outputs body args s = Returns s' \<Longrightarrow> frame s s'"
  using frame_all(5) by blast

subsection \<open>\<^verbatim>\<open>CALL_FUNCTION\<close>\<close>

text \<open>
  C2. When \<^verbatim>\<open>CALL_FUNCTION\<close> returns, the variables, the output slots and the tree of the
  interpreter are those of the caller before the call, whatever the body did to them, and
  the stack is the stack before the call without the arguments, followed by what is pushed
  for the output slots the body filled. Everything else is as the body left it: the list
  of created nodes, the dictionary of node group trees, the socket table and the backend.
\<close>

theorem call_function_restores_caller:
  assumes "operation (Operation CALL_FUNCTION (CompiledFunction inputs num_outputs body)) s
             = Returns s'"
  shows "variables s' = variables s \<and> function_outputs s' = function_outputs s \<and>
         tree s' = tree s \<and>
         (\<exists>s1. run_body body (callee_frame inputs num_outputs s) = Returns s1 \<and>
               length (function_outputs s1) = nat num_outputs \<and>
               stack s' = take (length (stack s) - length inputs) (stack s)
                            @ pushed_outputs (function_outputs s1) \<and>
               nodes s' = nodes s1 \<and> node_group_trees s' = node_group_trees s1 \<and>
               socket_table s' = socket_table s1 \<and> bpy s' = bpy s1)"
proof -
  from assms obtain s1 where b: "run_body body (callee_frame inputs num_outputs s) = Returns s1"
    and fr: "function_return s (snd (get_args (stack s) (length inputs))) s1 = Returns s'"
    by (auto simp: operation_kind_call_function and_then_Returns callee_frame_def
        get_args_take_drop)
  note f = run_body_frame[OF b]
  note r = function_return_Returns[OF fr]
  have "length (function_outputs s1) = nat num_outputs"
    using f by (simp add: frame_def callee_frame_def)
  moreover have "tree s' = tree s"
    using f r by (simp add: frame_def callee_frame_def)
  ultimately show ?thesis
    using b r by (auto simp: get_args_take_drop)
qed

lemma chase_name_concrete [simp]:
  "chase_name vars (PyInt i) = Some (PyInt i)"
  by (simp add: chase_name.simps)

text \<open>
  The theorem at a function whose body creates a variable \<^verbatim>\<open>x\<close>: the caller's \<^verbatim>\<open>x\<close> is
  still 1 after the call, and the argument is gone from the stack.
\<close>

theorem call_function_restores_caller_witness:
  "operation (Operation CALL_FUNCTION shadowing_function) caller0
     = Returns (caller0\<lparr>stack := [PyInt 7]\<rparr>) \<and>
   variables (caller0\<lparr>stack := [PyInt 7]\<rparr>) ''x'' = Some (PyInt 1) \<and>
   stack (caller0\<lparr>stack := [PyInt 7]\<rparr>) = [PyInt 7]"
proof -
  have h: "operation (Operation CALL_FUNCTION (CompiledFunction [''a''] 0
       [Operation PUSH_VALUE (PyInt 5), Operation CREATE_VAR (PyStr ''x'')])) caller0
     = Returns (caller0\<lparr>stack := [PyInt 7]\<rparr>)"
    by (simp add: operation_kind_call_function operation_kind_simple operation_simple_def
        caller0_def interp0_def get_args_def py_pop_def function_return_def)
  from call_function_restores_caller[OF h] h show ?thesis
    by (simp add: shadowing_function_def caller0_def)
qed

text \<open>
  C2, the state that does cross the call: a function whose body adds a node leaves the
  node in the interpreter's list of created nodes, which was empty before the call, and in
  the backend; a \<^verbatim>\<open>RENAME_NODE\<close> after the call labels the node made inside the function.
\<close>

theorem call_function_leaks_created_nodes:
  "and_then (operation (Operation CALL_FUNCTION node_making_function) interp0)
     (\<lambda>s. Returns (nodes s, bk_log (bpy s)))
     = Returns ([0], [NewNode 0 ''ShaderNodeMath'']) \<and>
   nodes interp0 = [] \<and>
   and_then
     (run_body [Operation CALL_FUNCTION node_making_function,
                Operation RENAME_NODE (PyStr ''inner'')] interp0)
     (\<lambda>s. Returns (bk_log (bpy s)))
     = Returns [NewNode 0 ''ShaderNodeMath'', SetLabel 0 (PyStr ''inner'')]"
  by (simp add: node_making_function_def operation_kind_call_function operation_kind_simple
      operation_simple_def interp0_def host0_def get_args_def function_return_def
      add_builtin_def nodes_new_def py_index_def py_position_def node_set_label_def)

subsection \<open>Calls that declare no output\<close>









subsection \<open>\<^verbatim>\<open>CALL_NODEGROUP\<close> called again\<close>








section \<open>Properties of the parser\<close>

lemma skip_errors_plain:
  "token_type (current (take_token p)) \<noteq> ERROR \<Longrightarrow> skip_errors p = take_token p"
  by (subst skip_errors.simps) (simp add: Let_def)

lemma skip_errors_error:
  "token_type (current (take_token p)) = ERROR \<Longrightarrow>
   skip_errors p =
     skip_errors
       (error_at \<lparr>lexeme = lexeme (current (take_token p)), token_type = ERROR,
                  line = line (current (take_token p)), col = col (current (take_token p)),
                  start = start (current (take_token p)), token_error = None\<rparr>
          (case token_error (current (take_token p)) of None \<Rightarrow> ''None'' | Some m \<Rightarrow> m)
          (take_token p))"
  by (subst skip_errors.simps) (simp add: Let_def)

lemmas moving =
  match_def check_def consume_def advance_def take_token_def scan_token_def end_of_input_def
  skip_errors_plain skip_errors_error error_def error_at_def error_at_current_def

lemmas running =
  parse_def Parser_def statement_def expression_def get_rule_def Precedence_def
  make_int_def py_int_def binary_def binary_operation_def unary_def Let_def

subsection \<open>An operand followed by \<^verbatim>\<open>not\<close>\<close>

text \<open>
  C6. The code at the failing input, the tokens of \<^verbatim>\<open>1 not 2\<close>: the table gives \<^verbatim>\<open>not\<close> a
  precedence and no infix rule, so the loop of \<^verbatim>\<open>parse_precedence\<close> takes \<^verbatim>\<open>not\<close> for an
  infix operator after the operand \<^verbatim>\<open>1\<close> and calls the rule \<^verbatim>\<open>None\<close>: \<^verbatim>\<open>parse\<close> raises
  \<^verbatim>\<open>TypeError\<close> and records no diagnostic. This is so for every number of steps that
  lets the run get there.
\<close>

theorem not_after_operand_raises_type_error:
  "parse (Suc (Suc (Suc fuel)))
     (Parser [token_at 1 INT_tok ''1'', token_at 3 NOT ''not'', token_at 7 INT_tok ''2'',
              token_at 8 EOL []] host types)
     = Raised TypeError"
  by (simp add: moving running token_at_def)

subsection \<open>An error token on the way to the synchronization point\<close>

text \<open>
  C7. The code at the failing input, the tokens of \<^verbatim>\<open>1 + * 7 $ 2; 3 +\<close> where the scanner
  gives an error token for \<^verbatim>\<open>$\<close>: the diagnostic at \<^verbatim>\<open>*\<close> starts the panic;
  \<^verbatim>\<open>synchronize\<close> clears the panic before it skips to the semicolon, so the error token
  it skips on the way records a second diagnostic and starts the panic again; the parser
  then reads the statement after the semicolon in panic mode, and the diagnostic for the
  missing operand of \<^verbatim>\<open>3 +\<close> is not recorded. Without the error token the two diagnostics
  are those at \<^verbatim>\<open>*\<close> and at the end.
\<close>

theorem scanner_error_while_synchronizing_silences_next_statement:
  "diagnosed (parse (Suc (Suc (Suc (Suc fuel))))
     (Parser [token_at 1 INT_tok ''1'', token_at 3 PLUS ''+'', token_at 5 STAR ''*'',
              token_at 7 INT_tok ''7'', error_token_at 9 ''$'' ''Unexpected character.'',
              token_at 11 INT_tok ''2'', token_at 12 SEMICOLON '';'',
              token_at 14 INT_tok ''3'', token_at 16 PLUS ''+'', token_at 17 EOL []]
        host types))
     = Parsed [(token_at 5 STAR ''*'', error_message (token_at 5 STAR ''*'') ''Expect expression.''),
               (token_at 9 ERROR ''$'', error_message (token_at 9 ERROR ''$'') ''Unexpected character.'')]
   \<and>
   diagnosed (parse (Suc (Suc (Suc (Suc fuel))))
     (Parser [token_at 1 INT_tok ''1'', token_at 3 PLUS ''+'', token_at 5 STAR ''*'',
              token_at 7 INT_tok ''7'',
              token_at 11 INT_tok ''2'', token_at 12 SEMICOLON '';'',
              token_at 14 INT_tok ''3'', token_at 16 PLUS ''+'', token_at 17 EOL []]
        host types))
     = Parsed [(token_at 5 STAR ''*'', error_message (token_at 5 STAR ''*'') ''Expect expression.''),
               (token_at 17 EOL [], error_message (token_at 17 EOL []) ''Expect expression.'')]"
  by (simp add: moving running token_at_def error_token_at_def diagnosed_def synchronize_def
      synchronize_loop.simps)

subsection \<open>Chains of binary operators\<close>

lemma advance_plain:
  "token_buffer p = [] \<Longrightarrow> scanner p = c # rest \<Longrightarrow> token_type c \<noteq> ERROR \<Longrightarrow>
   advance p = p\<lparr>previous := current p, current := c, scanner := rest\<rparr>"
  by (simp add: advance_def take_token_def scan_token_def skip_errors_plain)

lemma atom_kind:
  assumes "atom t = Some node"
  shows "token_type t \<in> {INT_tok, FLOAT, IDENTIFIER}" and "is_expr node"
  using assms by (auto simp: atom_def split: if_splits)


lemma binary_at_table:
  "binary_at q op \<longleftrightarrow>
     q = 2 \<and> token_type op = OR \<or>
     q = 3 \<and> token_type op = AND \<or>
     q = 5 \<and> token_type op \<in> {GREATER, LESS, LESS_EQUAL, GREATER_EQUAL, EQUAL_EQUAL, BANG_EQUAL} \<or>
     q = 6 \<and> token_type op \<in> {MINUS, PLUS} \<or>
     q = 7 \<and> token_type op \<in> {PERCENT, SLASH, STAR} \<or>
     q = 9 \<and> token_type op \<in> {HAT, STAR_STAR}"
  by (cases "token_type op") (auto simp: binary_at_def get_rule_def)

lemma prefix_atom:
  assumes "atom (previous p) = Some node"
    and "can_assign \<Longrightarrow> token_type (current p) \<notin> {EQUAL, COMMA}"
  shows "\<exists>prefix_rule. rule_prefix (get_rule (token_type (previous p))) = Some prefix_rule \<and>
           call_rule prefix_rule fuel pp can_assign p = Parsed (p\<lparr>curr_node := Some node\<rparr>)"
  using assms
  by (auto simp: atom_def get_rule_def make_int_def make_float_def identifier_rule_def
      check_def match_def Let_def split: if_splits)

lemma operand:
  assumes buf: "token_buffer p = []" and sc: "scanner p = c # rest"
    and a: "atom (current p) = Some node"
    and c: "token_type c \<noteq> ERROR" "rule_precedence (get_rule (token_type c)) < precedence"
    and prec: "2 \<le> precedence"
  shows "parse_precedence (Suc (Suc m)) precedence False p =
           Parsed (Some node,
             p\<lparr>previous := current p, current := c, scanner := rest, curr_node := Some node\<rparr>)"
proof -
  let ?p1 = "p\<lparr>previous := current p, current := c, scanner := rest\<rparr>"
  have adv: "advance p = ?p1" using buf sc c(1) by (rule advance_plain)
  have "atom (previous ?p1) = Some node" using a by simp
  then obtain prefix_rule where
    r: "rule_prefix (get_rule (token_type (previous ?p1))) = Some prefix_rule"
    and h: "call_rule prefix_rule (Suc m) (parse_precedence (Suc m)) False ?p1
              = Parsed (?p1\<lparr>curr_node := Some node\<rparr>)"
    using prefix_atom[of ?p1 node False "Suc m" "parse_precedence (Suc m)"] by blast
  have e: "is_expr node" using a by (rule atom_kind(2))
  have np: "\<not> precedence \<le> Suc 0" using prec by simp
  show ?thesis
    using r h e c(2) np by (simp add: adv)
qed






end
